theory Spec2Isabelle
  imports Complex_Main
begin

section \<open>Off-policy estimators of obp/ope/estimators.py\<close>

text \<open>
  The estimators of \<^verbatim>\<open>obp/ope/estimators.py\<close> are embedded as HOL functions over
  lists. A numpy vector of shape \<open>(T,)\<close> is a list, an array of shape
  \<open>(T, n_actions, len_list)\<close> is a list of lists of lists, an exception is the \<open>Inl\<close>
  of a sum type, and an optional argument is an \<open>option\<close>. Every array argument is a
  numpy array, so the tests \<^verbatim>\<open>isinstance(..., np.ndarray)\<close> of the source hold and
  their other branches are not written out.
\<close>

subsection \<open>Floating-point values\<close>

text \<open>
  A float is a real number or one of the three IEEE special values. Rounding is not
  modelled: arithmetic on finite values is exact, and a finite result stays finite
  whatever its size, where float64 overflows to an infinity beyond its largest value
  and underflows to zero. What is modelled is where numpy leaves the finite numbers
  for another reason: \<open>x / 0\<close> is an infinity (a zero divisor is taken as \<open>+0\<close>),
  \<open>0 / 0\<close>, \<open>inf - inf\<close> and \<open>0 * inf\<close> are \<open>nan\<close>, \<open>nan\<close> propagates through every
  operation, and every comparison with \<open>nan\<close> is false.
\<close>

datatype npfloat = Fin real | PInf | NInf | NaN

fun fneg :: "npfloat \<Rightarrow> npfloat" where
  "fneg (Fin x) = Fin (- x)"
| "fneg PInf = NInf"
| "fneg NInf = PInf"
| "fneg NaN = NaN"

fun fadd :: "npfloat \<Rightarrow> npfloat \<Rightarrow> npfloat" where
  "fadd (Fin x) (Fin y) = Fin (x + y)"
| "fadd (Fin x) PInf = PInf"
| "fadd (Fin x) NInf = NInf"
| "fadd PInf (Fin y) = PInf"
| "fadd PInf PInf = PInf"
| "fadd PInf NInf = NaN"
| "fadd NInf (Fin y) = NInf"
| "fadd NInf PInf = NaN"
| "fadd NInf NInf = NInf"
| "fadd NaN y = NaN"
| "fadd (Fin x) NaN = NaN"
| "fadd PInf NaN = NaN"
| "fadd NInf NaN = NaN"

definition fsub :: "npfloat \<Rightarrow> npfloat \<Rightarrow> npfloat" where
  "fsub x y = fadd x (fneg y)"

fun fmul :: "npfloat \<Rightarrow> npfloat \<Rightarrow> npfloat" where
  "fmul (Fin x) (Fin y) = Fin (x * y)"
| "fmul (Fin x) PInf = (if x = 0 then NaN else if 0 < x then PInf else NInf)"
| "fmul (Fin x) NInf = (if x = 0 then NaN else if 0 < x then NInf else PInf)"
| "fmul PInf (Fin y) = (if y = 0 then NaN else if 0 < y then PInf else NInf)"
| "fmul NInf (Fin y) = (if y = 0 then NaN else if 0 < y then NInf else PInf)"
| "fmul PInf PInf = PInf"
| "fmul PInf NInf = NInf"
| "fmul NInf PInf = NInf"
| "fmul NInf NInf = PInf"
| "fmul NaN y = NaN"
| "fmul (Fin x) NaN = NaN"
| "fmul PInf NaN = NaN"
| "fmul NInf NaN = NaN"

fun fdiv :: "npfloat \<Rightarrow> npfloat \<Rightarrow> npfloat" where
  "fdiv (Fin x) (Fin y) =
     (if y = 0 then (if x = 0 then NaN else if 0 < x then PInf else NInf)
      else Fin (x / y))"
| "fdiv (Fin x) PInf = Fin 0"
| "fdiv (Fin x) NInf = Fin 0"
| "fdiv PInf (Fin y) = (if 0 \<le> y then PInf else NInf)"
| "fdiv NInf (Fin y) = (if 0 \<le> y then NInf else PInf)"
| "fdiv PInf PInf = NaN"
| "fdiv PInf NInf = NaN"
| "fdiv NInf PInf = NaN"
| "fdiv NInf NInf = NaN"
| "fdiv NaN y = NaN"
| "fdiv (Fin x) NaN = NaN"
| "fdiv PInf NaN = NaN"
| "fdiv NInf NaN = NaN"

text \<open>\<^verbatim>\<open>np.minimum\<close>: the smaller value, \<open>nan\<close> when either argument is \<open>nan\<close>.\<close>

fun fmin :: "npfloat \<Rightarrow> npfloat \<Rightarrow> npfloat" where
  "fmin (Fin x) (Fin y) = Fin (min x y)"
| "fmin (Fin x) PInf = Fin x"
| "fmin (Fin x) NInf = NInf"
| "fmin PInf (Fin y) = Fin y"
| "fmin PInf PInf = PInf"
| "fmin PInf NInf = NInf"
| "fmin NInf (Fin y) = NInf"
| "fmin NInf PInf = NInf"
| "fmin NInf NInf = NInf"
| "fmin NaN y = NaN"
| "fmin (Fin x) NaN = NaN"
| "fmin PInf NaN = NaN"
| "fmin NInf NaN = NaN"

text \<open>The comparisons \<open><\<close>, \<open><=\<close>, \<open>==\<close> and \<open>!=\<close> of Python floats.\<close>

fun flt :: "npfloat \<Rightarrow> npfloat \<Rightarrow> bool" where
  "flt (Fin x) (Fin y) = (x < y)"
| "flt (Fin x) PInf = True"
| "flt (Fin x) NInf = False"
| "flt PInf y = False"
| "flt NInf (Fin y) = True"
| "flt NInf PInf = True"
| "flt NInf NInf = False"
| "flt NaN y = False"
| "flt (Fin x) NaN = False"
| "flt NInf NaN = False"

fun feq :: "npfloat \<Rightarrow> npfloat \<Rightarrow> bool" where
  "feq (Fin x) (Fin y) = (x = y)"
| "feq PInf PInf = True"
| "feq NInf NInf = True"
| "feq (Fin x) PInf = False"
| "feq (Fin x) NInf = False"
| "feq PInf (Fin y) = False"
| "feq PInf NInf = False"
| "feq NInf (Fin y) = False"
| "feq NInf PInf = False"
| "feq NaN y = False"
| "feq (Fin x) NaN = False"
| "feq PInf NaN = False"
| "feq NInf NaN = False"

definition fle :: "npfloat \<Rightarrow> npfloat \<Rightarrow> bool" where
  "fle x y = (flt x y \<or> feq x y)"

definition fne :: "npfloat \<Rightarrow> npfloat \<Rightarrow> bool" where
  "fne x y = (\<not> feq x y)"




text \<open>The sum and the mean of a vector (\<^verbatim>\<open>ndarray.sum\<close>, \<^verbatim>\<open>ndarray.mean\<close>). The
  mean of the empty vector is \<open>0 / 0\<close>, that is \<open>nan\<close>, as in numpy.\<close>

fun fsum :: "npfloat list \<Rightarrow> npfloat" where
  "fsum [] = Fin 0"
| "fsum (x # xs) = fadd x (fsum xs)"

definition fmean :: "npfloat list \<Rightarrow> npfloat" where
  "fmean xs = fdiv (fsum xs) (Fin (real (length xs)))"

subsection \<open>Exceptions, vectors and arrays\<close>

datatype pyerr = TypeError | ValueError | IndexError | ZeroDivisionError

type_synonym vec = "npfloat list"
type_synonym array3 = "npfloat list list list"

text \<open>An exception anywhere in a list of results is the exception of the whole, the
  first one in the order of the list.\<close>

fun collect :: "(pyerr + 'a) list \<Rightarrow> pyerr + 'a list" where
  "collect [] = Inr []"
| "collect (Inl e # rs) = Inl e"
| "collect (Inr v # rs) = (case collect rs of Inl e \<Rightarrow> Inl e | Inr vs \<Rightarrow> Inr (v # vs))"

text \<open>
  An index into an axis of length \<open>n\<close>: numpy accepts \<open>-n \<le> i < n\<close>, counts a negative
  index from the end, and raises IndexError otherwise.
\<close>

definition norm_index :: "nat \<Rightarrow> int \<Rightarrow> nat option" where
  "norm_index n i =
     (if 0 \<le> i \<and> i < int n then Some (nat i)
      else if - int n \<le> i \<and> i < 0 then Some (nat (i + int n))
      else None)"

text \<open>The entry \<^verbatim>\<open>arr[t, a, p]\<close>.\<close>

definition at3 :: "array3 \<Rightarrow> nat \<Rightarrow> int \<Rightarrow> int \<Rightarrow> pyerr + npfloat" where
  "at3 arr t a p =
     (if t < length arr then
        (case norm_index (length (arr ! t)) a of
           None \<Rightarrow> Inl IndexError
         | Some j \<Rightarrow>
             (case norm_index (length (arr ! t ! j)) p of
                None \<Rightarrow> Inl IndexError
              | Some k \<Rightarrow> Inr (arr ! t ! j ! k)))
      else Inl IndexError)"

text \<open>
  \<^verbatim>\<open>arr[np.arange(action.shape[0]), action, position]\<close>: one entry per round. The
  index vectors must have one length (numpy would broadcast a vector of length one
  against the others; the estimators document every vector as of shape \<open>(n_rounds,)\<close>,
  and a call that relies on broadcasting is counted as a shape error here). This is
  the indexing of the Replay Method, of IPW and SNIPW and of Balanced IPW below; for
  the doubly robust estimators the broadcasting is modelled, by \<open>take_along_bc\<close>.
\<close>

definition take_along :: "array3 \<Rightarrow> int list \<Rightarrow> int list \<Rightarrow> pyerr + vec" where
  "take_along arr action position =
     (if length position \<noteq> length action then Inl IndexError
      else collect (map (\<lambda>(t, a, p). at3 arr t a p)
                     (zip [0..<length action] (zip action position))))"

text \<open>Elementwise arithmetic on two vectors of one shape.\<close>

definition vop :: "(npfloat \<Rightarrow> npfloat \<Rightarrow> npfloat) \<Rightarrow> vec \<Rightarrow> vec \<Rightarrow> pyerr + vec" where
  "vop f xs ys =
     (if length xs = length ys then Inr (map2 f xs ys) else Inl ValueError)"

text \<open>\<^verbatim>\<open>position = np.zeros(action_dist.shape[0], dtype=int)\<close> when position is None.\<close>

definition default_position :: "array3 \<Rightarrow> int list option \<Rightarrow> int list" where
  "default_position action_dist position =
     (case position of None \<Rightarrow> replicate (length action_dist) 0 | Some p \<Rightarrow> p)"

subsection \<open>Input validation\<close>

text \<open>
  Modelled from the spec: \<^verbatim>\<open>check_array\<close> of \<^verbatim>\<open>obp/utils.py\<close>, which is not among
  the sources. It rejects an argument of the wrong rank or type. Ranks and element
  types are fixed by the HOL types here, so what is left to reject is an argument that
  is None (\<open>pscore\<close> and \<open>estimated_pscore\<close> may be). The calls on \<open>reward\<close>, \<open>action\<close>,
  \<open>estimated_rewards_by_reg_model\<close> and \<open>importance_sampling_ratio\<close>, which are lists
  by their types, always pass and are not written out in the estimators below.
\<close>

definition check_array :: "'a option \<Rightarrow> pyerr + 'a" where
  "check_array array = (case array of None \<Rightarrow> Inl ValueError | Some a \<Rightarrow> Inr a)"

definition n_actions_of :: "array3 \<Rightarrow> nat" where
  "n_actions_of arr = (case arr of [] \<Rightarrow> 0 | r # _ \<Rightarrow> length r)"

definition len_list_of :: "array3 \<Rightarrow> nat" where
  "len_list_of arr = (case arr of (c # _) # _ \<Rightarrow> length c | _ \<Rightarrow> 0)"

definition rectangular :: "array3 \<Rightarrow> bool" where
  "rectangular arr =
     (\<forall>r \<in> set arr. length r = n_actions_of arr \<and>
        (\<forall>c \<in> set r. length c = len_list_of arr))"

definition is_distribution :: "array3 \<Rightarrow> bool" where
  "is_distribution arr =
     (\<forall>r \<in> set arr.
        (\<forall>c \<in> set r. \<forall>x \<in> set c. fle (Fin 0) x \<and> fle x (Fin 1)) \<and>
        (\<forall>p < len_list_of arr. feq (fsum (map (\<lambda>c. c ! p) r)) (Fin 1)))"

text \<open>
  Modelled from the spec: \<^verbatim>\<open>check_ope_inputs\<close> of \<^verbatim>\<open>obp/utils.py\<close>, which is not
  among the sources. Following sections 3 and 7 of the spec it rejects: an
  \<open>action_dist\<close> that is not a three-dimensional array, has an entry outside \<open>[0, 1]\<close>
  or a slice \<open>[t, :, p]\<close> that does not sum to one; vectors whose length is not the
  number of rounds; an action outside \<open>0 \<le> action[t] < n_actions\<close>; a \<open>pscore\<close> with a
  zero or a negative entry; an \<open>estimated_rewards_by_reg_model\<close> whose shape is not
  that of \<open>action_dist\<close>. Every argument but \<open>action_dist\<close> is optional, as in the
  calls of the estimators. The result is the exception raised, if any.
\<close>

definition check_ope_inputs ::
  "array3 \<Rightarrow> int list option \<Rightarrow> int list option \<Rightarrow> vec option \<Rightarrow> vec option \<Rightarrow>
   array3 option \<Rightarrow> vec option \<Rightarrow> pyerr option" where
  "check_ope_inputs action_dist position action reward pscore
     estimated_rewards_by_reg_model importance_sampling_ratio =
     (let T = length action_dist in
      if \<not> rectangular action_dist then Some ValueError
      else if \<not> is_distribution action_dist then Some ValueError
      else if (case position of None \<Rightarrow> False | Some p \<Rightarrow> length p \<noteq> T)
        then Some ValueError
      else if (case estimated_rewards_by_reg_model of None \<Rightarrow> False
               | Some q \<Rightarrow> map (map length) q \<noteq> map (map length) action_dist)
        then Some ValueError
      else if (case action of None \<Rightarrow> False
               | Some a \<Rightarrow> length a \<noteq> T \<or>
                   (\<exists>x \<in> set a. x < 0 \<or> int (n_actions_of action_dist) \<le> x))
        then Some ValueError
      else if (case reward of None \<Rightarrow> False | Some r \<Rightarrow> length r \<noteq> T)
        then Some ValueError
      else if (case pscore of None \<Rightarrow> False
               | Some ps \<Rightarrow> length ps \<noteq> T \<or> (\<exists>x \<in> set ps. fle x (Fin 0)))
        then Some ValueError
      else if (case importance_sampling_ratio of None \<Rightarrow> False
               | Some w \<Rightarrow> length w \<noteq> T)
        then Some ValueError
      else None)"

text \<open>
  \<^verbatim>\<open>estimate_confidence_interval_by_bootstrap\<close> of \<^verbatim>\<open>obp/utils.py\<close> is not among the
  sources either, and it draws random numbers. Every \<open>estimate_interval\<close> below takes
  it as its first argument \<open>bootstrap\<close> and applies it to the samples, \<open>alpha\<close>,
  \<open>n_bootstrap_samples\<close> and \<open>random_state\<close>, as the source does. An argument with a
  default value is an \<open>option\<close>: None stands for a call that does not supply it.
\<close>

type_synonym 'r bootstrap = "vec \<Rightarrow> npfloat \<Rightarrow> int \<Rightarrow> int option \<Rightarrow> 'r"

definition default_alpha :: "npfloat option \<Rightarrow> npfloat" where
  "default_alpha alpha = (case alpha of None \<Rightarrow> Fin (5 / 100) | Some a \<Rightarrow> a)"

subsection \<open>Replay Method\<close>

definition b2f :: "bool \<Rightarrow> npfloat" where
  "b2f b = (if b then Fin 1 else Fin 0)"

text \<open>\<^verbatim>\<open>ReplayMethod._estimate_round_rewards\<close>. The array of zeros has the dtype of
  \<open>action_match\<close> (bool) in the source; its entries are the number zero here.\<close>

definition RM_estimate_round_rewards ::
  "vec \<Rightarrow> int list \<Rightarrow> array3 \<Rightarrow> int list option \<Rightarrow> pyerr + vec" where
  "RM_estimate_round_rewards reward action action_dist position =
     (let position = default_position action_dist position in
      case take_along action_dist action position of
        Inl e \<Rightarrow> Inl e
      | Inr pi_e \<Rightarrow>
          (let action_match = map (\<lambda>v. b2f (feq v (Fin 1))) pi_e;
               estimated_rewards = replicate (length action_match) (Fin 0)
           in if flt (Fin 0) (fsum action_match) then
                (case vop fmul action_match reward of
                   Inl e \<Rightarrow> Inl e
                 | Inr mr \<Rightarrow> Inr (map (\<lambda>x. fdiv x (fmean action_match)) mr))
              else Inr estimated_rewards))"

text \<open>\<^verbatim>\<open>ReplayMethod.estimate_policy_value\<close>.\<close>

definition RM_estimate_policy_value ::
  "vec \<Rightarrow> int list \<Rightarrow> array3 \<Rightarrow> int list option \<Rightarrow> pyerr + npfloat" where
  "RM_estimate_policy_value reward action action_dist position =
     (case check_ope_inputs action_dist position (Some action) (Some reward)
             None None None of
        Some e \<Rightarrow> Inl e
      | None \<Rightarrow>
          (let position = default_position action_dist position in
           case RM_estimate_round_rewards reward action action_dist (Some position) of
             Inl e \<Rightarrow> Inl e
           | Inr rs \<Rightarrow> Inr (fmean rs)))"

text \<open>\<^verbatim>\<open>ReplayMethod.estimate_interval\<close>, with the defaults of its signature:
  \<^verbatim>\<open>alpha: float = 0.05, n_bootstrap_samples: int = 100\<close>.\<close>

definition RM_estimate_interval ::
  "'r bootstrap \<Rightarrow> vec \<Rightarrow> int list \<Rightarrow> array3 \<Rightarrow> int list option \<Rightarrow>
   npfloat option \<Rightarrow> int option \<Rightarrow> int option \<Rightarrow> pyerr + 'r" where
  "RM_estimate_interval bootstrap reward action action_dist position
     alpha n_bootstrap_samples random_state =
     (let alpha = default_alpha alpha;
          n_bootstrap_samples =
            (case n_bootstrap_samples of None \<Rightarrow> 100 | Some n \<Rightarrow> n)
      in case check_ope_inputs action_dist position (Some action) (Some reward)
                None None None of
           Some e \<Rightarrow> Inl e
         | None \<Rightarrow>
             (let position = default_position action_dist position in
              case RM_estimate_round_rewards reward action action_dist (Some position) of
                Inl e \<Rightarrow> Inl e
              | Inr estimated_round_rewards \<Rightarrow>
                  Inr (bootstrap estimated_round_rewards alpha n_bootstrap_samples
                         random_state)))"

subsection \<open>Hyperparameters and construction\<close>

text \<open>
  Python values, for the arguments of the dataclass constructors. The fields of an
  estimator: \<open>lambda\<close> (the field \<^verbatim>\<open>lambda_\<close>) is kept as the float it denotes once
  \<^verbatim>\<open>__post_init__\<close> has accepted it; \<open>use_estimated_pscore\<close> is kept as the Python value
  it was given, since not every class checks it. Balanced IPW has the first two fields
  only.
\<close>

datatype pyval = PyNone | PyBool bool | PyInt int | PyFloat npfloat | PyStr string

record hyper =
  lambda :: npfloat
  estimator_name :: string

record estimator = hyper +
  use_estimated_pscore :: pyval

text \<open>\<^verbatim>\<open>isinstance(x, (int, float))\<close> and \<^verbatim>\<open>isinstance(x, bool)\<close>; \<open>bool\<close> is a
  subclass of \<open>int\<close> in Python.\<close>

fun is_int_or_float :: "pyval \<Rightarrow> bool" where
  "is_int_or_float (PyBool b) = True"
| "is_int_or_float (PyInt i) = True"
| "is_int_or_float (PyFloat f) = True"
| "is_int_or_float PyNone = False"
| "is_int_or_float (PyStr s) = False"

fun is_bool :: "pyval \<Rightarrow> bool" where
  "is_bool (PyBool b) = True"
| "is_bool PyNone = False"
| "is_bool (PyInt i) = False"
| "is_bool (PyFloat f) = False"
| "is_bool (PyStr s) = False"

text \<open>The number a numeric Python value denotes (\<open>nan\<close> for the others, which no
  caller below reaches).\<close>

fun num_of :: "pyval \<Rightarrow> npfloat" where
  "num_of (PyBool b) = b2f b"
| "num_of (PyInt i) = Fin (real_of_int i)"
| "num_of (PyFloat f) = f"
| "num_of PyNone = NaN"
| "num_of (PyStr s) = NaN"

text \<open>The truth value of \<^verbatim>\<open>if x:\<close>.\<close>

fun truthy :: "pyval \<Rightarrow> bool" where
  "truthy PyNone = False"
| "truthy (PyBool b) = b"
| "truthy (PyInt i) = (i \<noteq> 0)"
| "truthy (PyFloat f) = (\<not> feq f (Fin 0))"
| "truthy (PyStr s) = (s \<noteq> [])"

text \<open>\<^verbatim>\<open>check_scalar(x, name, target_type=(int, float), min_val=min_val)\<close> of
  scikit-learn: TypeError unless \<open>x\<close> is an instance of the target types, ValueError
  when \<open>x < min_val\<close>.\<close>

definition check_scalar :: "pyval \<Rightarrow> npfloat \<Rightarrow> pyerr option" where
  "check_scalar x min_val =
     (if \<not> is_int_or_float x then Some TypeError
      else if flt (num_of x) min_val then Some ValueError
      else None)"

text \<open>\<^verbatim>\<open>InverseProbabilityWeighting.__post_init__\<close>, run by the constructor on the
  fields it was given; \<^verbatim>\<open>SelfNormalizedInverseProbabilityWeighting\<close> inherits it.\<close>

definition IPW_post_init :: "pyval \<Rightarrow> string \<Rightarrow> pyval \<Rightarrow> pyerr + estimator" where
  "IPW_post_init lam name uep =
     (case check_scalar lam (Fin 0) of
        Some e \<Rightarrow> Inl e
      | None \<Rightarrow>
          if fne (num_of lam) (num_of lam) then Inl ValueError
          else if \<not> is_bool uep then Inl TypeError
          else Inr \<lparr>lambda = num_of lam, estimator_name = name,
                    use_estimated_pscore = uep\<rparr>)"

text \<open>\<^verbatim>\<open>DoublyRobust.__post_init__\<close>; \<^verbatim>\<open>SelfNormalizedDoublyRobust\<close> inherits it.\<close>

definition DR_post_init :: "pyval \<Rightarrow> string \<Rightarrow> pyval \<Rightarrow> pyerr + estimator" where
  "DR_post_init lam name uep =
     (case check_scalar lam (Fin 0) of
        Some e \<Rightarrow> Inl e
      | None \<Rightarrow>
          if fne (num_of lam) (num_of lam) then Inl ValueError
          else if \<not> is_bool uep then Inl TypeError
          else Inr \<lparr>lambda = num_of lam, estimator_name = name,
                    use_estimated_pscore = uep\<rparr>)"

text \<open>\<^verbatim>\<open>SwitchDoublyRobust.__post_init__\<close>, which overrides the one of
  \<^verbatim>\<open>DoublyRobust\<close>; the field \<open>use_estimated_pscore\<close> is inherited.\<close>

definition SwitchDR_post_init :: "pyval \<Rightarrow> string \<Rightarrow> pyval \<Rightarrow> pyerr + estimator" where
  "SwitchDR_post_init lam name uep =
     (case check_scalar lam (Fin 0) of
        Some e \<Rightarrow> Inl e
      | None \<Rightarrow>
          if fne (num_of lam) (num_of lam) then Inl ValueError
          else Inr \<lparr>lambda = num_of lam, estimator_name = name,
                    use_estimated_pscore = uep\<rparr>)"

text \<open>\<^verbatim>\<open>DoublyRobustWithShrinkage.__post_init__\<close>, which overrides the one of
  \<^verbatim>\<open>DoublyRobust\<close>; the field \<open>use_estimated_pscore\<close> is inherited.\<close>

definition DRos_post_init :: "pyval \<Rightarrow> string \<Rightarrow> pyval \<Rightarrow> pyerr + estimator" where
  "DRos_post_init lam name uep =
     (case check_scalar lam (Fin 0) of
        Some e \<Rightarrow> Inl e
      | None \<Rightarrow>
          if fne (num_of lam) (num_of lam) then Inl ValueError
          else Inr \<lparr>lambda = num_of lam, estimator_name = name,
                    use_estimated_pscore = uep\<rparr>)"

text \<open>\<^verbatim>\<open>BalancedInverseProbabilityWeighting.__post_init__\<close>; the class has no field
  \<open>use_estimated_pscore\<close>.\<close>

definition BIPW_post_init :: "pyval \<Rightarrow> string \<Rightarrow> pyerr + hyper" where
  "BIPW_post_init lam name =
     (case check_scalar lam (Fin 0) of
        Some e \<Rightarrow> Inl e
      | None \<Rightarrow>
          if fne (num_of lam) (num_of lam) then Inl ValueError
          else Inr \<lparr>lambda = num_of lam, estimator_name = name\<rparr>)"

subsection \<open>Inverse Probability Weighting and its self-normalized variant\<close>

text \<open>\<^verbatim>\<open>InverseProbabilityWeighting._estimate_round_rewards\<close>.\<close>

definition IPW_estimate_round_rewards ::
  "estimator \<Rightarrow> vec \<Rightarrow> int list \<Rightarrow> vec \<Rightarrow> array3 \<Rightarrow> int list option \<Rightarrow> pyerr + vec" where
  "IPW_estimate_round_rewards self reward action pscore action_dist position =
     (let position = default_position action_dist position in
      case take_along action_dist action position of
        Inl e \<Rightarrow> Inl e
      | Inr pi_e \<Rightarrow>
          (case vop fdiv pi_e pscore of
             Inl e \<Rightarrow> Inl e
           | Inr iw \<Rightarrow>
               (let iw = map (\<lambda>w. fmin w (lambda self)) iw in
                vop fmul reward iw)))"

text \<open>\<^verbatim>\<open>SelfNormalizedInverseProbabilityWeighting._estimate_round_rewards\<close>.\<close>

definition SNIPW_estimate_round_rewards ::
  "estimator \<Rightarrow> vec \<Rightarrow> int list \<Rightarrow> vec \<Rightarrow> array3 \<Rightarrow> int list option \<Rightarrow> pyerr + vec" where
  "SNIPW_estimate_round_rewards self reward action pscore action_dist position =
     (let position = default_position action_dist position in
      case take_along action_dist action position of
        Inl e \<Rightarrow> Inl e
      | Inr pi_e \<Rightarrow>
          (case vop fdiv pi_e pscore of
             Inl e \<Rightarrow> Inl e
           | Inr iw \<Rightarrow>
               (case vop fmul reward iw of
                  Inl e \<Rightarrow> Inl e
                | Inr riw \<Rightarrow> Inr (map (\<lambda>x. fdiv x (fmean iw)) riw))))"

text \<open>
  \<^verbatim>\<open>InverseProbabilityWeighting.estimate_policy_value\<close>. The subclass inherits the
  method, and \<^verbatim>\<open>self._estimate_round_rewards\<close> is the method of the class of \<open>self\<close>:
  it is the first argument here.
\<close>

definition IPW_estimate_policy_value_via ::
  "(estimator \<Rightarrow> vec \<Rightarrow> int list \<Rightarrow> vec \<Rightarrow> array3 \<Rightarrow> int list option \<Rightarrow> pyerr + vec) \<Rightarrow>
   estimator \<Rightarrow> vec \<Rightarrow> int list \<Rightarrow> vec option \<Rightarrow> array3 \<Rightarrow> int list option \<Rightarrow>
   vec option \<Rightarrow> pyerr + npfloat" where
  "IPW_estimate_policy_value_via estimate_round_rewards self reward action pscore
     action_dist position estimated_pscore =
     (case (if truthy (use_estimated_pscore self) then check_array estimated_pscore
            else check_array pscore) of
        Inl e \<Rightarrow> Inl e
      | Inr pscore_a \<Rightarrow>
          (case check_ope_inputs action_dist position (Some action) (Some reward)
                  (Some pscore_a) None None of
             Some e \<Rightarrow> Inl e
           | None \<Rightarrow>
               (let position = default_position action_dist position in
                case estimate_round_rewards self reward action pscore_a action_dist
                       (Some position) of
                  Inl e \<Rightarrow> Inl e
                | Inr rs \<Rightarrow> Inr (fmean rs))))"

definition IPW_estimate_policy_value ::
  "estimator \<Rightarrow> vec \<Rightarrow> int list \<Rightarrow> vec option \<Rightarrow> array3 \<Rightarrow> int list option \<Rightarrow>
   vec option \<Rightarrow> pyerr + npfloat" where
  "IPW_estimate_policy_value = IPW_estimate_policy_value_via IPW_estimate_round_rewards"

definition SNIPW_estimate_policy_value ::
  "estimator \<Rightarrow> vec \<Rightarrow> int list \<Rightarrow> vec option \<Rightarrow> array3 \<Rightarrow> int list option \<Rightarrow>
   vec option \<Rightarrow> pyerr + npfloat" where
  "SNIPW_estimate_policy_value = IPW_estimate_policy_value_via SNIPW_estimate_round_rewards"

text \<open>\<^verbatim>\<open>InverseProbabilityWeighting.estimate_interval\<close>, with the defaults of its
  signature: \<^verbatim>\<open>alpha: float = 0.05, n_bootstrap_samples: int = 10000\<close>.\<close>

definition IPW_estimate_interval_via ::
  "(estimator \<Rightarrow> vec \<Rightarrow> int list \<Rightarrow> vec \<Rightarrow> array3 \<Rightarrow> int list option \<Rightarrow> pyerr + vec) \<Rightarrow>
   'r bootstrap \<Rightarrow> estimator \<Rightarrow> vec \<Rightarrow> int list \<Rightarrow> vec option \<Rightarrow> array3 \<Rightarrow>
   int list option \<Rightarrow> vec option \<Rightarrow> npfloat option \<Rightarrow> int option \<Rightarrow> int option \<Rightarrow>
   pyerr + 'r" where
  "IPW_estimate_interval_via estimate_round_rewards bootstrap self reward action pscore
     action_dist position estimated_pscore alpha n_bootstrap_samples random_state =
     (let alpha = default_alpha alpha;
          n_bootstrap_samples =
            (case n_bootstrap_samples of None \<Rightarrow> 10000 | Some n \<Rightarrow> n)
      in case (if truthy (use_estimated_pscore self) then check_array estimated_pscore
               else check_array pscore) of
           Inl e \<Rightarrow> Inl e
         | Inr pscore_a \<Rightarrow>
             (case check_ope_inputs action_dist position (Some action) (Some reward)
                     (Some pscore_a) None None of
                Some e \<Rightarrow> Inl e
              | None \<Rightarrow>
                  (let position = default_position action_dist position in
                   case estimate_round_rewards self reward action pscore_a action_dist
                          (Some position) of
                     Inl e \<Rightarrow> Inl e
                   | Inr estimated_round_rewards \<Rightarrow>
                       Inr (bootstrap estimated_round_rewards alpha
                              n_bootstrap_samples random_state))))"

definition IPW_estimate_interval ::
  "'r bootstrap \<Rightarrow> estimator \<Rightarrow> vec \<Rightarrow> int list \<Rightarrow> vec option \<Rightarrow> array3 \<Rightarrow>
   int list option \<Rightarrow> vec option \<Rightarrow> npfloat option \<Rightarrow> int option \<Rightarrow> int option \<Rightarrow>
   pyerr + 'r" where
  "IPW_estimate_interval = IPW_estimate_interval_via IPW_estimate_round_rewards"

definition SNIPW_estimate_interval ::
  "'r bootstrap \<Rightarrow> estimator \<Rightarrow> vec \<Rightarrow> int list \<Rightarrow> vec option \<Rightarrow> array3 \<Rightarrow>
   int list option \<Rightarrow> vec option \<Rightarrow> npfloat option \<Rightarrow> int option \<Rightarrow> int option \<Rightarrow>
   pyerr + 'r" where
  "SNIPW_estimate_interval = IPW_estimate_interval_via SNIPW_estimate_round_rewards"

subsection \<open>Direct Method\<close>

text \<open>\<^verbatim>\<open>arr[np.arange(n_rounds), :, position]\<close>: for every round the entries of all
  actions at the round's position.\<close>

definition row_at :: "array3 \<Rightarrow> nat \<Rightarrow> int \<Rightarrow> pyerr + vec" where
  "row_at arr t p =
     (if t < length arr then
        collect (map (\<lambda>c. case norm_index (length c) p of
                             None \<Rightarrow> Inl IndexError
                           | Some k \<Rightarrow> Inr (c ! k)) (arr ! t))
      else Inl IndexError)"

definition rows_at :: "array3 \<Rightarrow> nat \<Rightarrow> int list \<Rightarrow> pyerr + npfloat list list" where
  "rows_at arr n_rounds position =
     (if length position \<noteq> n_rounds then Inl IndexError
      else collect (map (\<lambda>(t, p). row_at arr t p) (zip [0..<n_rounds] position)))"

text \<open>
  \<^verbatim>\<open>np.average(a, weights=w, axis=1)\<close> on two-dimensional arrays: TypeError when the
  shapes differ, ZeroDivisionError when the weights of some row sum to zero, and
  otherwise, row by row, the sum of the products divided by the sum of the weights.
\<close>

definition np_average :: "npfloat list list \<Rightarrow> npfloat list list \<Rightarrow> pyerr + vec" where
  "np_average a w =
     (if map length a \<noteq> map length w then Inl TypeError
      else (let scl = map fsum w in
            if \<exists>s \<in> set scl. feq s (Fin 0) then Inl ZeroDivisionError
            else Inr (map2 fdiv (map fsum (map2 (map2 fmul) a w)) scl)))"

text \<open>\<^verbatim>\<open>DirectMethod._estimate_round_rewards\<close>.\<close>

definition DM_estimate_round_rewards ::
  "array3 \<Rightarrow> array3 \<Rightarrow> int list option \<Rightarrow> pyerr + vec" where
  "DM_estimate_round_rewards action_dist estimated_rewards_by_reg_model position =
     (let position = default_position action_dist position;
          n_rounds = length position
      in case rows_at estimated_rewards_by_reg_model n_rounds position of
           Inl e \<Rightarrow> Inl e
         | Inr q_hat_at_position \<Rightarrow>
             (case rows_at action_dist n_rounds position of
                Inl e \<Rightarrow> Inl e
              | Inr pi_e_at_position \<Rightarrow>
                  np_average q_hat_at_position pi_e_at_position))"

text \<open>\<^verbatim>\<open>DirectMethod.estimate_policy_value\<close>.\<close>

definition DM_estimate_policy_value ::
  "array3 \<Rightarrow> array3 \<Rightarrow> int list option \<Rightarrow> pyerr + npfloat" where
  "DM_estimate_policy_value action_dist estimated_rewards_by_reg_model position =
     (case check_ope_inputs action_dist position None None None
             (Some estimated_rewards_by_reg_model) None of
        Some e \<Rightarrow> Inl e
      | None \<Rightarrow>
          (let position = default_position action_dist position in
           case DM_estimate_round_rewards action_dist estimated_rewards_by_reg_model
                  (Some position) of
             Inl e \<Rightarrow> Inl e
           | Inr rs \<Rightarrow> Inr (fmean rs)))"

text \<open>\<^verbatim>\<open>DirectMethod.estimate_interval\<close>, with the defaults of its signature:
  \<^verbatim>\<open>alpha: float = 0.05, n_bootstrap_samples: int = 10000\<close>.\<close>

definition DM_estimate_interval ::
  "'r bootstrap \<Rightarrow> array3 \<Rightarrow> array3 \<Rightarrow> int list option \<Rightarrow>
   npfloat option \<Rightarrow> int option \<Rightarrow> int option \<Rightarrow> pyerr + 'r" where
  "DM_estimate_interval bootstrap action_dist estimated_rewards_by_reg_model position
     alpha n_bootstrap_samples random_state =
     (let alpha = default_alpha alpha;
          n_bootstrap_samples =
            (case n_bootstrap_samples of None \<Rightarrow> 10000 | Some n \<Rightarrow> n)
      in case check_ope_inputs action_dist position None None None
                (Some estimated_rewards_by_reg_model) None of
           Some e \<Rightarrow> Inl e
         | None \<Rightarrow>
             (let position = default_position action_dist position in
              case DM_estimate_round_rewards action_dist estimated_rewards_by_reg_model
                     (Some position) of
                Inl e \<Rightarrow> Inl e
              | Inr estimated_round_rewards \<Rightarrow>
                  Inr (bootstrap estimated_round_rewards alpha n_bootstrap_samples
                         random_state)))"

subsection \<open>Doubly Robust and its variants\<close>

text \<open>
  The four doubly robust estimators are modelled with numpy's broadcasting, since what
  the three subclasses do with a position that is None, or that has another length
  than \<open>action\<close>, is what claims C3 and C10 are about. Two vectors combine elementwise
  when they have one length, and a vector of length one combines with every element of
  the other; otherwise numpy raises (ValueError for arithmetic, IndexError for index
  vectors).
\<close>

definition broadcast ::
  "pyerr \<Rightarrow> ('a \<Rightarrow> 'b \<Rightarrow> 'c) \<Rightarrow> 'a list \<Rightarrow> 'b list \<Rightarrow> pyerr + 'c list" where
  "broadcast e f xs ys =
     (if length xs = length ys then Inr (map2 f xs ys)
      else if length xs = 1 then Inr (map (f (hd xs)) ys)
      else if length ys = 1 then Inr (map (\<lambda>x. f x (hd ys)) xs)
      else Inl e)"

text \<open>\<^verbatim>\<open>arr[np.arange(action.shape[0]), action, position]\<close> and
  \<^verbatim>\<open>arr[np.arange(n_rounds), :, position]\<close> with a position vector, the index vectors
  broadcast against each other.\<close>

definition take_along_bc :: "array3 \<Rightarrow> int list \<Rightarrow> int list \<Rightarrow> pyerr + vec" where
  "take_along_bc arr action position =
     (case broadcast IndexError Pair (zip [0..<length action] action) position of
        Inl e \<Rightarrow> Inl e
      | Inr idx \<Rightarrow> collect (map (\<lambda>((t, a), p). at3 arr t a p) idx))"

definition rows_at_bc :: "array3 \<Rightarrow> nat \<Rightarrow> int list \<Rightarrow> pyerr + npfloat list list" where
  "rows_at_bc arr n_rounds position =
     (case broadcast IndexError Pair [0..<n_rounds] position of
        Inl e \<Rightarrow> Inl e
      | Inr idx \<Rightarrow> collect (map (\<lambda>(t, p). row_at arr t p) idx))"

text \<open>The in-place addition \<^verbatim>\<open>x += c\<close>: \<open>c\<close> must broadcast to the shape of \<open>x\<close>, which
  does not grow.\<close>

definition inplace_add :: "vec \<Rightarrow> vec \<Rightarrow> pyerr + vec" where
  "inplace_add x c =
     (if length c = length x then Inr (map2 fadd x c)
      else if length c = 1 then Inr (map (\<lambda>v. fadd v (hd c)) x)
      else Inl ValueError)"

text \<open>
  The part the doubly robust estimators share when the position is a vector, in the
  order of the source after the weights \<open>iw_hat\<close> of the correction term are computed:
  the rows at the position, the estimated reward of the logged action, the weighted
  average, and \<^verbatim>\<open>estimated_rewards += iw_hat * (reward - q_hat_factual)\<close>.
\<close>

definition dm_term_plus_correction ::
  "vec \<Rightarrow> vec \<Rightarrow> int list \<Rightarrow> array3 \<Rightarrow> array3 \<Rightarrow> int list \<Rightarrow> pyerr + vec" where
  "dm_term_plus_correction iw_hat reward action action_dist
     estimated_rewards_by_reg_model position =
     (let n_rounds = length action in
      case rows_at_bc estimated_rewards_by_reg_model n_rounds position of
        Inl e \<Rightarrow> Inl e
      | Inr q_hat_at_position \<Rightarrow>
          (case take_along_bc estimated_rewards_by_reg_model action position of
             Inl e \<Rightarrow> Inl e
           | Inr q_hat_factual \<Rightarrow>
               (case rows_at_bc action_dist n_rounds position of
                  Inl e \<Rightarrow> Inl e
                | Inr pi_e_at_position \<Rightarrow>
                    (case np_average q_hat_at_position pi_e_at_position of
                       Inl e \<Rightarrow> Inl e
                     | Inr estimated_rewards \<Rightarrow>
                         (case broadcast ValueError fsub reward q_hat_factual of
                            Inl e \<Rightarrow> Inl e
                          | Inr d \<Rightarrow>
                              (case broadcast ValueError fmul iw_hat d of
                                 Inl e \<Rightarrow> Inl e
                               | Inr c \<Rightarrow> inplace_add estimated_rewards c))))))"

text \<open>
  With \<^verbatim>\<open>position=None\<close> numpy reads the index as \<^verbatim>\<open>np.newaxis\<close>: the index
  \<^verbatim>\<open>arr[np.arange(n), action, None]\<close> has shape \<open>(n, 1, len_list)\<close>, with the whole last
  axis of \<open>arr\<close> at round \<open>t\<close> and action \<open>action[t]\<close>, and
  \<^verbatim>\<open>arr[np.arange(n), :, None]\<close> has shape \<open>(n, n_actions, 1, len_list)\<close>, the first \<open>n\<close>
  slices of \<open>arr\<close>. An array of shape \<open>(n, 1, len_list)\<close> is kept below as the list of its
  \<open>n\<close> rows over the last axis. (The lists do not tell arrays with an axis of length zero
  apart; the shapes numpy would still compare there are not modelled.)
\<close>

definition cells_at :: "array3 \<Rightarrow> int list \<Rightarrow> pyerr + npfloat list list" where
  "cells_at arr action =
     collect (map (\<lambda>(t, a).
                if t < length arr then
                  (case norm_index (length (arr ! t)) a of
                     None \<Rightarrow> Inl IndexError
                   | Some j \<Rightarrow> Inr (arr ! t ! j))
                else Inl IndexError)
              (zip [0..<length action] action))"

definition slices_at :: "array3 \<Rightarrow> nat \<Rightarrow> pyerr + array3" where
  "slices_at arr n_rounds =
     (if n_rounds \<le> length arr then Inr (take n_rounds arr) else Inl IndexError)"

text \<open>\<^verbatim>\<open>np.average(a, weights=w, axis=1)\<close> on arrays of shape
  \<open>(n, n_actions, 1, len_list)\<close>: for every round and every position, over the
  actions. The result has shape \<open>(n, 1, len_list)\<close>.\<close>

definition np_average_axis1 :: "array3 \<Rightarrow> array3 \<Rightarrow> pyerr + npfloat list list" where
  "np_average_axis1 a w =
     (if map (map length) a \<noteq> map (map length) w then Inl TypeError
      else (let scl = map (\<lambda>wt. map fsum (transpose wt)) w in
            if \<exists>row \<in> set scl. \<exists>s \<in> set row. feq s (Fin 0) then Inl ZeroDivisionError
            else Inr (map2 (\<lambda>prods sc. map2 fdiv (map fsum (transpose prods)) sc)
                        (map2 (map2 (map2 fmul)) a w) scl)))"

text \<open>Elementwise arithmetic of an array of shape \<open>(n, 1, k)\<close> with a vector, and of two
  such arrays: the last axes broadcast.\<close>

definition rows_op ::
  "(npfloat \<Rightarrow> npfloat \<Rightarrow> npfloat) \<Rightarrow> npfloat list list \<Rightarrow> vec \<Rightarrow>
   pyerr + npfloat list list" where
  "rows_op f rows v = collect (map (\<lambda>row. broadcast ValueError f row v) rows)"

definition rows_op2 ::
  "(npfloat \<Rightarrow> npfloat \<Rightarrow> npfloat) \<Rightarrow> npfloat list list \<Rightarrow> npfloat list list \<Rightarrow>
   pyerr + npfloat list list" where
  "rows_op2 f xs ys = collect (map2 (broadcast ValueError f) xs ys)"

text \<open>The shared part when the position is None; \<open>iw_hat\<close> has shape \<open>(n, 1, k)\<close>.\<close>

definition dm_term_plus_correction_newaxis ::
  "npfloat list list \<Rightarrow> vec \<Rightarrow> int list \<Rightarrow> array3 \<Rightarrow> array3 \<Rightarrow>
   pyerr + npfloat list list" where
  "dm_term_plus_correction_newaxis iw_hat reward action action_dist
     estimated_rewards_by_reg_model =
     (let n_rounds = length action in
      case slices_at estimated_rewards_by_reg_model n_rounds of
        Inl e \<Rightarrow> Inl e
      | Inr q_hat_at_position \<Rightarrow>
          (case cells_at estimated_rewards_by_reg_model action of
             Inl e \<Rightarrow> Inl e
           | Inr q_hat_factual \<Rightarrow>
               (case slices_at action_dist n_rounds of
                  Inl e \<Rightarrow> Inl e
                | Inr pi_e_at_position \<Rightarrow>
                    (case np_average_axis1 q_hat_at_position pi_e_at_position of
                       Inl e \<Rightarrow> Inl e
                     | Inr estimated_rewards \<Rightarrow>
                         (case rows_op (\<lambda>q r. fsub r q) q_hat_factual reward of
                            Inl e \<Rightarrow> Inl e
                          | Inr d \<Rightarrow>
                              (case rows_op2 fmul iw_hat d of
                                 Inl e \<Rightarrow> Inl e
                               | Inr c \<Rightarrow>
                                   collect (map2 inplace_add estimated_rewards c)))))))"

text \<open>\<^verbatim>\<open>DoublyRobust._estimate_round_rewards\<close>. A position that is None is replaced
  by zeros.\<close>

definition DR_estimate_round_rewards ::
  "estimator \<Rightarrow> vec \<Rightarrow> int list \<Rightarrow> vec \<Rightarrow> array3 \<Rightarrow> array3 \<Rightarrow> int list option \<Rightarrow>
   pyerr + vec" where
  "DR_estimate_round_rewards self reward action pscore action_dist
     estimated_rewards_by_reg_model position =
     (let position = default_position action_dist position in
      case take_along_bc action_dist action position of
        Inl e \<Rightarrow> Inl e
      | Inr pi_e \<Rightarrow>
          (case broadcast ValueError fdiv pi_e pscore of
             Inl e \<Rightarrow> Inl e
           | Inr iw \<Rightarrow>
               (let iw = map (\<lambda>w. fmin w (lambda self)) iw in
                dm_term_plus_correction iw reward action action_dist
                  estimated_rewards_by_reg_model position)))"

text \<open>
  The three subclasses below index with \<open>position\<close> as it is given: they do not replace
  a position that is None by zeros. What such a method returns is a vector of round
  rewards when the position is a vector, and an array of shape \<open>(n, 1, len_list)\<close> when
  the position is None and no operation raises. The body of each method is given twice,
  for a position vector and for None.
\<close>

datatype ndarray = Vec vec | Arr3 array3

definition of_rows :: "npfloat list list \<Rightarrow> ndarray" where
  "of_rows rows = Arr3 (map (\<lambda>row. [row]) rows)"

text \<open>\<^verbatim>\<open>ndarray.mean()\<close>: the mean of all entries.\<close>

fun nd_mean :: "ndarray \<Rightarrow> npfloat" where
  "nd_mean (Vec v) = fmean v"
| "nd_mean (Arr3 a) = fmean (concat (concat a))"

text \<open>\<^verbatim>\<open>SelfNormalizedDoublyRobust._estimate_round_rewards\<close>. The correction term is
  \<^verbatim>\<open>iw * (reward - q_hat_factual) / iw.mean()\<close>, and the weighted average is computed
  before \<open>q_hat_factual\<close> is read.\<close>

definition SNDR_round_rewards_array ::
  "estimator \<Rightarrow> vec \<Rightarrow> int list \<Rightarrow> vec \<Rightarrow> array3 \<Rightarrow> array3 \<Rightarrow> int list \<Rightarrow> pyerr + vec" where
  "SNDR_round_rewards_array self reward action pscore action_dist
     estimated_rewards_by_reg_model position =
     (let n_rounds = length action in
      case take_along_bc action_dist action position of
        Inl e \<Rightarrow> Inl e
      | Inr pi_e \<Rightarrow>
      (case broadcast ValueError fdiv pi_e pscore of
         Inl e \<Rightarrow> Inl e
       | Inr iw \<Rightarrow>
       (case rows_at_bc estimated_rewards_by_reg_model n_rounds position of
          Inl e \<Rightarrow> Inl e
        | Inr q_hat_at_position \<Rightarrow>
        (case rows_at_bc action_dist n_rounds position of
           Inl e \<Rightarrow> Inl e
         | Inr pi_e_at_position \<Rightarrow>
         (case np_average q_hat_at_position pi_e_at_position of
            Inl e \<Rightarrow> Inl e
          | Inr estimated_rewards \<Rightarrow>
          (case take_along_bc estimated_rewards_by_reg_model action position of
             Inl e \<Rightarrow> Inl e
           | Inr q_hat_factual \<Rightarrow>
           (case broadcast ValueError fsub reward q_hat_factual of
              Inl e \<Rightarrow> Inl e
            | Inr d \<Rightarrow>
            (case broadcast ValueError fmul iw d of
               Inl e \<Rightarrow> Inl e
             | Inr c \<Rightarrow>
                 inplace_add estimated_rewards
                   (map (\<lambda>x. fdiv x (fmean iw)) c)))))))))"

definition SNDR_round_rewards_newaxis ::
  "estimator \<Rightarrow> vec \<Rightarrow> int list \<Rightarrow> vec \<Rightarrow> array3 \<Rightarrow> array3 \<Rightarrow> pyerr + npfloat list list" where
  "SNDR_round_rewards_newaxis self reward action pscore action_dist
     estimated_rewards_by_reg_model =
     (let n_rounds = length action in
      case cells_at action_dist action of
        Inl e \<Rightarrow> Inl e
      | Inr pi_e \<Rightarrow>
      (case rows_op fdiv pi_e pscore of
         Inl e \<Rightarrow> Inl e
       | Inr iw \<Rightarrow>
       (case slices_at estimated_rewards_by_reg_model n_rounds of
          Inl e \<Rightarrow> Inl e
        | Inr q_hat_at_position \<Rightarrow>
        (case slices_at action_dist n_rounds of
           Inl e \<Rightarrow> Inl e
         | Inr pi_e_at_position \<Rightarrow>
         (case np_average_axis1 q_hat_at_position pi_e_at_position of
            Inl e \<Rightarrow> Inl e
          | Inr estimated_rewards \<Rightarrow>
          (case cells_at estimated_rewards_by_reg_model action of
             Inl e \<Rightarrow> Inl e
           | Inr q_hat_factual \<Rightarrow>
           (case rows_op (\<lambda>q r. fsub r q) q_hat_factual reward of
              Inl e \<Rightarrow> Inl e
            | Inr d \<Rightarrow>
            (case rows_op2 fmul iw d of
               Inl e \<Rightarrow> Inl e
             | Inr c \<Rightarrow>
                 collect
                   (map2 inplace_add estimated_rewards
                      (map (map (\<lambda>x. fdiv x (fmean (concat iw)))) c))))))))))"

definition SNDR_estimate_round_rewards ::
  "estimator \<Rightarrow> vec \<Rightarrow> int list \<Rightarrow> vec \<Rightarrow> array3 \<Rightarrow> array3 \<Rightarrow> int list option \<Rightarrow>
   pyerr + ndarray" where
  "SNDR_estimate_round_rewards self reward action pscore action_dist
     estimated_rewards_by_reg_model position =
     (case position of
        Some position \<Rightarrow>
          map_sum id Vec
            (SNDR_round_rewards_array self reward action pscore action_dist
               estimated_rewards_by_reg_model position)
      | None \<Rightarrow>
          map_sum id of_rows
            (SNDR_round_rewards_newaxis self reward action pscore action_dist
               estimated_rewards_by_reg_model))"

text \<open>\<^verbatim>\<open>SwitchDoublyRobust._estimate_round_rewards\<close>. The correction term is
  \<^verbatim>\<open>switch_indicator * iw * (reward - q_hat_factual)\<close> with
  \<^verbatim>\<open>switch_indicator = np.array(iw <= self.lambda_, dtype=int)\<close>.\<close>

definition SwitchDR_round_rewards_array ::
  "estimator \<Rightarrow> vec \<Rightarrow> int list \<Rightarrow> vec \<Rightarrow> array3 \<Rightarrow> array3 \<Rightarrow> int list \<Rightarrow> pyerr + vec" where
  "SwitchDR_round_rewards_array self reward action pscore action_dist
     estimated_rewards_by_reg_model position =
     (case take_along_bc action_dist action position of
        Inl e \<Rightarrow> Inl e
      | Inr pi_e \<Rightarrow>
          (case broadcast ValueError fdiv pi_e pscore of
             Inl e \<Rightarrow> Inl e
           | Inr iw \<Rightarrow>
               (let switch_indicator = map (\<lambda>w. b2f (fle w (lambda self))) iw in
                dm_term_plus_correction (map2 fmul switch_indicator iw) reward action
                  action_dist estimated_rewards_by_reg_model position)))"

definition SwitchDR_round_rewards_newaxis ::
  "estimator \<Rightarrow> vec \<Rightarrow> int list \<Rightarrow> vec \<Rightarrow> array3 \<Rightarrow> array3 \<Rightarrow> pyerr + npfloat list list" where
  "SwitchDR_round_rewards_newaxis self reward action pscore action_dist
     estimated_rewards_by_reg_model =
     (case cells_at action_dist action of
        Inl e \<Rightarrow> Inl e
      | Inr pi_e \<Rightarrow>
          (case rows_op fdiv pi_e pscore of
             Inl e \<Rightarrow> Inl e
           | Inr iw \<Rightarrow>
               (let switch_indicator = map (map (\<lambda>w. b2f (fle w (lambda self)))) iw in
                dm_term_plus_correction_newaxis (map2 (map2 fmul) switch_indicator iw)
                  reward action action_dist estimated_rewards_by_reg_model)))"

definition SwitchDR_estimate_round_rewards ::
  "estimator \<Rightarrow> vec \<Rightarrow> int list \<Rightarrow> vec \<Rightarrow> array3 \<Rightarrow> array3 \<Rightarrow> int list option \<Rightarrow>
   pyerr + ndarray" where
  "SwitchDR_estimate_round_rewards self reward action pscore action_dist
     estimated_rewards_by_reg_model position =
     (case position of
        Some position \<Rightarrow>
          map_sum id Vec
            (SwitchDR_round_rewards_array self reward action pscore action_dist
               estimated_rewards_by_reg_model position)
      | None \<Rightarrow>
          map_sum id of_rows
            (SwitchDR_round_rewards_newaxis self reward action pscore action_dist
               estimated_rewards_by_reg_model))"

text \<open>\<^verbatim>\<open>DoublyRobustWithShrinkage._estimate_round_rewards\<close>, with
  \<^verbatim>\<open>iw_hat = (self.lambda_ * iw) / (iw ** 2 + self.lambda_)\<close> when
  \<^verbatim>\<open>self.lambda_ < np.inf\<close>.\<close>

definition shrink :: "npfloat \<Rightarrow> npfloat \<Rightarrow> npfloat" where
  "shrink lam w = fdiv (fmul lam w) (fadd (fmul w w) lam)"

definition DRos_round_rewards_array ::
  "estimator \<Rightarrow> vec \<Rightarrow> int list \<Rightarrow> vec \<Rightarrow> array3 \<Rightarrow> array3 \<Rightarrow> int list \<Rightarrow> pyerr + vec" where
  "DRos_round_rewards_array self reward action pscore action_dist
     estimated_rewards_by_reg_model position =
     (case take_along_bc action_dist action position of
        Inl e \<Rightarrow> Inl e
      | Inr pi_e \<Rightarrow>
          (case broadcast ValueError fdiv pi_e pscore of
             Inl e \<Rightarrow> Inl e
           | Inr iw \<Rightarrow>
               (let iw_hat =
                  (if flt (lambda self) PInf then map (shrink (lambda self)) iw else iw)
                in dm_term_plus_correction iw_hat reward action action_dist
                     estimated_rewards_by_reg_model position)))"

definition DRos_round_rewards_newaxis ::
  "estimator \<Rightarrow> vec \<Rightarrow> int list \<Rightarrow> vec \<Rightarrow> array3 \<Rightarrow> array3 \<Rightarrow> pyerr + npfloat list list" where
  "DRos_round_rewards_newaxis self reward action pscore action_dist
     estimated_rewards_by_reg_model =
     (case cells_at action_dist action of
        Inl e \<Rightarrow> Inl e
      | Inr pi_e \<Rightarrow>
          (case rows_op fdiv pi_e pscore of
             Inl e \<Rightarrow> Inl e
           | Inr iw \<Rightarrow>
               (let iw_hat =
                  (if flt (lambda self) PInf then map (map (shrink (lambda self))) iw
                   else iw)
                in dm_term_plus_correction_newaxis iw_hat reward action action_dist
                     estimated_rewards_by_reg_model)))"

definition DRos_estimate_round_rewards ::
  "estimator \<Rightarrow> vec \<Rightarrow> int list \<Rightarrow> vec \<Rightarrow> array3 \<Rightarrow> array3 \<Rightarrow> int list option \<Rightarrow>
   pyerr + ndarray" where
  "DRos_estimate_round_rewards self reward action pscore action_dist
     estimated_rewards_by_reg_model position =
     (case position of
        Some position \<Rightarrow>
          map_sum id Vec
            (DRos_round_rewards_array self reward action pscore action_dist
               estimated_rewards_by_reg_model position)
      | None \<Rightarrow>
          map_sum id of_rows
            (DRos_round_rewards_newaxis self reward action pscore action_dist
               estimated_rewards_by_reg_model))"

text \<open>
  \<^verbatim>\<open>DoublyRobust.estimate_policy_value\<close>, inherited by the three subclasses; the
  first argument is the \<^verbatim>\<open>_estimate_round_rewards\<close> of the class of \<open>self\<close>, and the
  value is the \<^verbatim>\<open>.mean()\<close> of the array it returns.
\<close>

definition DR_estimate_policy_value_via ::
  "(estimator \<Rightarrow> vec \<Rightarrow> int list \<Rightarrow> vec \<Rightarrow> array3 \<Rightarrow> array3 \<Rightarrow> int list option \<Rightarrow>
    pyerr + ndarray) \<Rightarrow>
   estimator \<Rightarrow> vec \<Rightarrow> int list \<Rightarrow> vec option \<Rightarrow> array3 \<Rightarrow> array3 \<Rightarrow>
   int list option \<Rightarrow> vec option \<Rightarrow> pyerr + npfloat" where
  "DR_estimate_policy_value_via estimate_round_rewards self reward action pscore
     action_dist estimated_rewards_by_reg_model position estimated_pscore =
     (case (if truthy (use_estimated_pscore self) then check_array estimated_pscore
            else check_array pscore) of
        Inl e \<Rightarrow> Inl e
      | Inr pscore_a \<Rightarrow>
          (case check_ope_inputs action_dist position (Some action) (Some reward)
                  (Some pscore_a) (Some estimated_rewards_by_reg_model) None of
             Some e \<Rightarrow> Inl e
           | None \<Rightarrow>
               (let position = default_position action_dist position in
                case estimate_round_rewards self reward action pscore_a action_dist
                       estimated_rewards_by_reg_model (Some position) of
                  Inl e \<Rightarrow> Inl e
                | Inr rs \<Rightarrow> Inr (nd_mean rs))))"

text \<open>The method of \<^verbatim>\<open>DoublyRobust\<close> itself, whose round rewards are always a
  vector.\<close>

definition DR_round_rewards_method ::
  "estimator \<Rightarrow> vec \<Rightarrow> int list \<Rightarrow> vec \<Rightarrow> array3 \<Rightarrow> array3 \<Rightarrow> int list option \<Rightarrow>
   pyerr + ndarray" where
  "DR_round_rewards_method self reward action pscore action_dist
     estimated_rewards_by_reg_model position =
     map_sum id Vec
       (DR_estimate_round_rewards self reward action pscore action_dist
          estimated_rewards_by_reg_model position)"

definition DR_estimate_policy_value ::
  "estimator \<Rightarrow> vec \<Rightarrow> int list \<Rightarrow> vec option \<Rightarrow> array3 \<Rightarrow> array3 \<Rightarrow>
   int list option \<Rightarrow> vec option \<Rightarrow> pyerr + npfloat" where
  "DR_estimate_policy_value = DR_estimate_policy_value_via DR_round_rewards_method"

definition SNDR_estimate_policy_value ::
  "estimator \<Rightarrow> vec \<Rightarrow> int list \<Rightarrow> vec option \<Rightarrow> array3 \<Rightarrow> array3 \<Rightarrow>
   int list option \<Rightarrow> vec option \<Rightarrow> pyerr + npfloat" where
  "SNDR_estimate_policy_value = DR_estimate_policy_value_via SNDR_estimate_round_rewards"

definition SwitchDR_estimate_policy_value ::
  "estimator \<Rightarrow> vec \<Rightarrow> int list \<Rightarrow> vec option \<Rightarrow> array3 \<Rightarrow> array3 \<Rightarrow>
   int list option \<Rightarrow> vec option \<Rightarrow> pyerr + npfloat" where
  "SwitchDR_estimate_policy_value =
     DR_estimate_policy_value_via SwitchDR_estimate_round_rewards"

definition DRos_estimate_policy_value ::
  "estimator \<Rightarrow> vec \<Rightarrow> int list \<Rightarrow> vec option \<Rightarrow> array3 \<Rightarrow> array3 \<Rightarrow>
   int list option \<Rightarrow> vec option \<Rightarrow> pyerr + npfloat" where
  "DRos_estimate_policy_value = DR_estimate_policy_value_via DRos_estimate_round_rewards"

text \<open>\<^verbatim>\<open>DoublyRobust.estimate_interval\<close>, inherited by the three subclasses, with
  the defaults of its signature:
  \<^verbatim>\<open>alpha: float = 0.05, n_bootstrap_samples: int = 10000\<close>. The bootstrap is applied
  to the array of round rewards.\<close>

definition DR_estimate_interval_via ::
  "(estimator \<Rightarrow> vec \<Rightarrow> int list \<Rightarrow> vec \<Rightarrow> array3 \<Rightarrow> array3 \<Rightarrow> int list option \<Rightarrow>
    pyerr + ndarray) \<Rightarrow>
   (ndarray \<Rightarrow> npfloat \<Rightarrow> int \<Rightarrow> int option \<Rightarrow> 'r) \<Rightarrow>
   estimator \<Rightarrow> vec \<Rightarrow> int list \<Rightarrow> vec option \<Rightarrow> array3 \<Rightarrow> array3 \<Rightarrow>
   int list option \<Rightarrow> vec option \<Rightarrow> npfloat option \<Rightarrow> int option \<Rightarrow> int option \<Rightarrow>
   pyerr + 'r" where
  "DR_estimate_interval_via estimate_round_rewards bootstrap self reward action pscore
     action_dist estimated_rewards_by_reg_model position estimated_pscore
     alpha n_bootstrap_samples random_state =
     (let alpha = default_alpha alpha;
          n_bootstrap_samples =
            (case n_bootstrap_samples of None \<Rightarrow> 10000 | Some n \<Rightarrow> n)
      in case (if truthy (use_estimated_pscore self) then check_array estimated_pscore
               else check_array pscore) of
           Inl e \<Rightarrow> Inl e
         | Inr pscore_a \<Rightarrow>
             (case check_ope_inputs action_dist position (Some action) (Some reward)
                     (Some pscore_a) (Some estimated_rewards_by_reg_model) None of
                Some e \<Rightarrow> Inl e
              | None \<Rightarrow>
                  (let position = default_position action_dist position in
                   case estimate_round_rewards self reward action pscore_a action_dist
                          estimated_rewards_by_reg_model (Some position) of
                     Inl e \<Rightarrow> Inl e
                   | Inr estimated_round_rewards \<Rightarrow>
                       Inr (bootstrap estimated_round_rewards alpha
                              n_bootstrap_samples random_state))))"

definition DR_estimate_interval ::
  "(ndarray \<Rightarrow> npfloat \<Rightarrow> int \<Rightarrow> int option \<Rightarrow> 'r) \<Rightarrow>
   estimator \<Rightarrow> vec \<Rightarrow> int list \<Rightarrow> vec option \<Rightarrow> array3 \<Rightarrow> array3 \<Rightarrow>
   int list option \<Rightarrow> vec option \<Rightarrow> npfloat option \<Rightarrow> int option \<Rightarrow> int option \<Rightarrow>
   pyerr + 'r" where
  "DR_estimate_interval = DR_estimate_interval_via DR_round_rewards_method"

definition SNDR_estimate_interval ::
  "(ndarray \<Rightarrow> npfloat \<Rightarrow> int \<Rightarrow> int option \<Rightarrow> 'r) \<Rightarrow>
   estimator \<Rightarrow> vec \<Rightarrow> int list \<Rightarrow> vec option \<Rightarrow> array3 \<Rightarrow> array3 \<Rightarrow>
   int list option \<Rightarrow> vec option \<Rightarrow> npfloat option \<Rightarrow> int option \<Rightarrow> int option \<Rightarrow>
   pyerr + 'r" where
  "SNDR_estimate_interval = DR_estimate_interval_via SNDR_estimate_round_rewards"

definition SwitchDR_estimate_interval ::
  "(ndarray \<Rightarrow> npfloat \<Rightarrow> int \<Rightarrow> int option \<Rightarrow> 'r) \<Rightarrow>
   estimator \<Rightarrow> vec \<Rightarrow> int list \<Rightarrow> vec option \<Rightarrow> array3 \<Rightarrow> array3 \<Rightarrow>
   int list option \<Rightarrow> vec option \<Rightarrow> npfloat option \<Rightarrow> int option \<Rightarrow> int option \<Rightarrow>
   pyerr + 'r" where
  "SwitchDR_estimate_interval = DR_estimate_interval_via SwitchDR_estimate_round_rewards"

definition DRos_estimate_interval ::
  "(ndarray \<Rightarrow> npfloat \<Rightarrow> int \<Rightarrow> int option \<Rightarrow> 'r) \<Rightarrow>
   estimator \<Rightarrow> vec \<Rightarrow> int list \<Rightarrow> vec option \<Rightarrow> array3 \<Rightarrow> array3 \<Rightarrow>
   int list option \<Rightarrow> vec option \<Rightarrow> npfloat option \<Rightarrow> int option \<Rightarrow> int option \<Rightarrow>
   pyerr + 'r" where
  "DRos_estimate_interval = DR_estimate_interval_via DRos_estimate_round_rewards"

subsection \<open>Balanced Inverse Probability Weighting\<close>

text \<open>\<^verbatim>\<open>BalancedInverseProbabilityWeighting._estimate_round_rewards\<close>.\<close>

definition BIPW_estimate_round_rewards ::
  "hyper \<Rightarrow> vec \<Rightarrow> int list \<Rightarrow> vec \<Rightarrow> array3 \<Rightarrow> int list option \<Rightarrow> pyerr + vec" where
  "BIPW_estimate_round_rewards self reward action importance_sampling_ratio
     action_dist position =
     (let position = default_position action_dist position in
      case take_along action_dist action position of
        Inl e \<Rightarrow> Inl e
      | Inr pi_e \<Rightarrow>
          (case vop fmul pi_e importance_sampling_ratio of
             Inl e \<Rightarrow> Inl e
           | Inr iw \<Rightarrow>
               (let iw = map (\<lambda>w. fmin w (lambda self)) iw in
                case vop fmul reward iw of
                  Inl e \<Rightarrow> Inl e
                | Inr riw \<Rightarrow> Inr (map (\<lambda>x. fdiv x (fmean iw)) riw))))"

text \<open>\<^verbatim>\<open>BalancedInverseProbabilityWeighting.estimate_policy_value\<close>. Its arguments
  \<open>context\<close> and \<open>action_context\<close> are not used by the method and are left out. The
  method calls \<^verbatim>\<open>check_array\<close> on its three vectors and nothing else before it
  estimates.\<close>

definition BIPW_estimate_policy_value ::
  "hyper \<Rightarrow> vec \<Rightarrow> int list \<Rightarrow> array3 \<Rightarrow> vec \<Rightarrow> int list option \<Rightarrow> pyerr + npfloat" where
  "BIPW_estimate_policy_value self reward action action_dist importance_sampling_ratio
     position =
     (let position = default_position action_dist position in
      case BIPW_estimate_round_rewards self reward action importance_sampling_ratio
             action_dist (Some position) of
        Inl e \<Rightarrow> Inl e
      | Inr rs \<Rightarrow> Inr (fmean rs))"

text \<open>\<^verbatim>\<open>BalancedInverseProbabilityWeighting.estimate_interval\<close>, with the defaults of
  its signature: \<^verbatim>\<open>alpha: float = 0.05, n_bootstrap_samples: int = 10000\<close>.\<close>

definition BIPW_estimate_interval ::
  "'r bootstrap \<Rightarrow> hyper \<Rightarrow> vec \<Rightarrow> int list \<Rightarrow> vec \<Rightarrow> array3 \<Rightarrow> int list option \<Rightarrow>
   npfloat option \<Rightarrow> int option \<Rightarrow> int option \<Rightarrow> pyerr + 'r" where
  "BIPW_estimate_interval bootstrap self reward action importance_sampling_ratio
     action_dist position alpha n_bootstrap_samples random_state =
     (let alpha = default_alpha alpha;
          n_bootstrap_samples =
            (case n_bootstrap_samples of None \<Rightarrow> 10000 | Some n \<Rightarrow> n)
      in case check_ope_inputs action_dist position (Some action) (Some reward)
                None None (Some importance_sampling_ratio) of
           Some e \<Rightarrow> Inl e
         | None \<Rightarrow>
             (let position = default_position action_dist position in
              case BIPW_estimate_round_rewards self reward action
                     importance_sampling_ratio action_dist (Some position) of
                Inl e \<Rightarrow> Inl e
              | Inr estimated_round_rewards \<Rightarrow>
                  Inr (bootstrap estimated_round_rewards alpha n_bootstrap_samples
                         random_state)))"

section \<open>Basic facts about the array operations\<close>

lemma feq_Fin_iff: "feq x (Fin r) \<longleftrightarrow> x = Fin r"
  by (cases x) auto

lemma collect_map_Inr: "collect (map Inr vs) = Inr vs"
  by (induction vs) auto

lemma collect_Inr_D: "collect rs = Inr vs \<Longrightarrow> rs = map Inr vs"
proof (induction rs arbitrary: vs)
  case Nil
  then show ?case by simp
next
  case (Cons r rs)
  then show ?case by (cases r) (auto split: sum.splits)
qed

lemma collect_Inr_iff: "collect rs = Inr vs \<longleftrightarrow> rs = map Inr vs"
  using collect_Inr_D collect_map_Inr by blast

lemma map_eq_map_Inr_iff:
  assumes "length xs = n" and "\<And>t. t < n \<Longrightarrow> xs ! t = h t"
  shows "xs = map Inr g \<longleftrightarrow> length g = n \<and> (\<forall>t < n. h t = Inr (g ! t))"
proof
  assume eq: "xs = map Inr g"
  then have l: "length g = n" using assms(1) by auto
  moreover have "\<forall>t < n. h t = Inr (g ! t)"
  proof (intro allI impI)
    fix t assume t: "t < n"
    then have "h t = xs ! t" using assms(2) by simp
    also have "\<dots> = Inr (g ! t)" using eq l t by simp
    finally show "h t = Inr (g ! t)" .
  qed
  ultimately show "length g = n \<and> (\<forall>t < n. h t = Inr (g ! t))" by simp
next
  assume r: "length g = n \<and> (\<forall>t < n. h t = Inr (g ! t))"
  show "xs = map Inr g"
  proof (rule nth_equalityI)
    show "length xs = length (map Inr g)" using assms(1) r by simp
  next
    fix t assume "t < length xs"
    then have t: "t < n" using assms(1) by simp
    then show "xs ! t = map Inr g ! t" using assms(2) r by simp
  qed
qed

text \<open>The indexing \<^verbatim>\<open>arr[np.arange(n), action, position]\<close> returns a vector exactly
  when the index vectors have one length and every round's entry exists.\<close>

lemma take_along_Inr_iff:
  "take_along arr action position = Inr g \<longleftrightarrow>
     length position = length action \<and> length g = length action \<and>
     (\<forall>t < length action. at3 arr t (action ! t) (position ! t) = Inr (g ! t))"
proof (cases "length position = length action")
  case False
  then show ?thesis by (simp add: take_along_def)
next
  case True
  let ?xs = "map (\<lambda>(t, a, p). at3 arr t a p) (zip [0..<length action] (zip action position))"
  have l: "length ?xs = length action" using True by simp
  have n: "\<And>t. t < length action \<Longrightarrow> ?xs ! t = at3 arr t (action ! t) (position ! t)"
    using True by simp
  show ?thesis
    using map_eq_map_Inr_iff [OF l n, of g] True
    by (simp add: take_along_def collect_Inr_iff)
qed



section \<open>Inverse Probability Weighting: the round rewards\<close>

lemma IPW_Some_unfold:
  "IPW_estimate_round_rewards self reward action pscore action_dist (Some position) = Inr rs \<longleftrightarrow>
   (\<exists>g. take_along action_dist action position = Inr g \<and> length g = length pscore \<and>
        length reward = length g \<and>
        rs = map2 fmul reward (map (\<lambda>w. fmin w (lambda self)) (map2 fdiv g pscore)))"
  by (auto simp: IPW_estimate_round_rewards_def default_position_def vop_def Let_def
           split: sum.splits)

lemma IPW_round_rewards_iff:
  "IPW_estimate_round_rewards self reward action pscore action_dist (Some position) = Inr rs \<longleftrightarrow>
     length position = length action \<and> length pscore = length action \<and>
     length reward = length action \<and> length rs = length action \<and>
     (\<forall>t < length action. \<exists>pi. at3 action_dist t (action ! t) (position ! t) = Inr pi \<and>
         rs ! t = fmul (reward ! t) (fmin (fdiv pi (pscore ! t)) (lambda self)))"
  (is "?L \<longleftrightarrow> ?R")
proof
  assume ?L
  then obtain g where g: "take_along action_dist action position = Inr g"
      "length g = length pscore" "length reward = length g"
      "rs = map2 fmul reward (map (\<lambda>w. fmin w (lambda self)) (map2 fdiv g pscore))"
    unfolding IPW_Some_unfold by blast
  from g(1) have ta: "length position = length action" "length g = length action"
      "\<forall>t < length action. at3 action_dist t (action ! t) (position ! t) = Inr (g ! t)"
    unfolding take_along_Inr_iff by auto
  have "\<forall>t < length action.
          rs ! t = fmul (reward ! t) (fmin (fdiv (g ! t) (pscore ! t)) (lambda self))"
    using g ta by simp
  then show ?R using g ta by auto
next
  assume R: ?R
  then have "\<forall>t. \<exists>pi. t < length action \<longrightarrow>
         at3 action_dist t (action ! t) (position ! t) = Inr pi \<and>
         rs ! t = fmul (reward ! t) (fmin (fdiv pi (pscore ! t)) (lambda self))"
    by blast
  then obtain f where f: "\<And>t. t < length action \<Longrightarrow>
       at3 action_dist t (action ! t) (position ! t) = Inr (f t) \<and>
         rs ! t = fmul (reward ! t) (fmin (fdiv (f t) (pscore ! t)) (lambda self))"
    by metis
  let ?g = "map f [0..<length action]"
  have 1: "take_along action_dist action position = Inr ?g"
    unfolding take_along_Inr_iff using R f by simp
  have 2: "rs = map2 fmul reward (map (\<lambda>w. fmin w (lambda self)) (map2 fdiv ?g pscore))"
  proof (rule nth_equalityI)
    show "length rs =
      length (map2 fmul reward (map (\<lambda>w. fmin w (lambda self)) (map2 fdiv ?g pscore)))"
      using R by simp
  next
    fix t assume "t < length rs"
    then have t: "t < length action" using R by simp
    then show "rs ! t =
      map2 fmul reward (map (\<lambda>w. fmin w (lambda self)) (map2 fdiv ?g pscore)) ! t"
      using R f [OF t] by simp
  qed
  show ?L unfolding IPW_Some_unfold
    by (rule exI [of _ ?g]) (use 1 2 R in simp)
qed

lemma IPW_default_position:
  "IPW_estimate_round_rewards self reward action pscore action_dist position =
   IPW_estimate_round_rewards self reward action pscore action_dist
     (Some (default_position action_dist position))"
  by (simp add: IPW_estimate_round_rewards_def default_position_def)

text \<open>
  Claim C2. For IPW the round rewards are a vector exactly when the vectors have one
  length and every round's entry of \<open>action_dist\<close> at the logged action and position
  exists, and then the reward of round \<open>t\<close> is \<open>reward[t]\<close> times the minimum of
  \<open>action_dist[t, action[t], position[t]] / pscore[t]\<close> and \<open>lambda_\<close>, the position
  being all zeros when it is not given. For three rounds with rewards \<open>[1, 0, 1]\<close>,
  actions \<open>[0, 1, 0]\<close>, propensities \<open>[0.5, 0.5, 0.5]\<close>, an \<open>action_dist\<close> that is one-hot
  at the logged action and \<open>lambda_\<close> infinite, the round rewards are \<open>[2, 0, 2]\<close> and
  the policy value is \<open>4/3\<close>.
\<close>

theorem IPW_round_reward_formula:
  "(IPW_estimate_round_rewards self reward action pscore action_dist position = Inr rs \<longleftrightarrow>
      length (default_position action_dist position) = length action \<and>
      length pscore = length action \<and> length reward = length action \<and>
      length rs = length action \<and>
      (\<forall>t < length action. \<exists>pi.
         at3 action_dist t (action ! t) (default_position action_dist position ! t) = Inr pi \<and>
         rs ! t = fmul (reward ! t) (fmin (fdiv pi (pscore ! t)) (lambda self)))) \<and>
   IPW_estimate_round_rewards
     \<lparr>lambda = PInf, estimator_name = ''ipw'', use_estimated_pscore = PyBool False\<rparr>
     [Fin 1, Fin 0, Fin 1] [0, 1, 0] [Fin (1/2), Fin (1/2), Fin (1/2)]
     [[[Fin 1], [Fin 0]], [[Fin 0], [Fin 1]], [[Fin 1], [Fin 0]]] None
     = Inr [Fin 2, Fin 0, Fin 2] \<and>
   IPW_estimate_policy_value
     \<lparr>lambda = PInf, estimator_name = ''ipw'', use_estimated_pscore = PyBool False\<rparr>
     [Fin 1, Fin 0, Fin 1] [0, 1, 0] (Some [Fin (1/2), Fin (1/2), Fin (1/2)])
     [[[Fin 1], [Fin 0]], [[Fin 0], [Fin 1]], [[Fin 1], [Fin 0]]] None None
     = Inr (Fin (4/3))"
proof (intro conjI)
  show "IPW_estimate_round_rewards self reward action pscore action_dist position = Inr rs \<longleftrightarrow>
      length (default_position action_dist position) = length action \<and>
      length pscore = length action \<and> length reward = length action \<and>
      length rs = length action \<and>
      (\<forall>t < length action. \<exists>pi.
         at3 action_dist t (action ! t) (default_position action_dist position ! t) = Inr pi \<and>
         rs ! t = fmul (reward ! t) (fmin (fdiv pi (pscore ! t)) (lambda self)))"
    by (subst IPW_default_position) (rule IPW_round_rewards_iff)
next
  show "IPW_estimate_round_rewards
     \<lparr>lambda = PInf, estimator_name = ''ipw'', use_estimated_pscore = PyBool False\<rparr>
     [Fin 1, Fin 0, Fin 1] [0, 1, 0] [Fin (1/2), Fin (1/2), Fin (1/2)]
     [[[Fin 1], [Fin 0]], [[Fin 0], [Fin 1]], [[Fin 1], [Fin 0]]] None
     = Inr [Fin 2, Fin 0, Fin 2]"
    by code_simp
next
  show "IPW_estimate_policy_value
     \<lparr>lambda = PInf, estimator_name = ''ipw'', use_estimated_pscore = PyBool False\<rparr>
     [Fin 1, Fin 0, Fin 1] [0, 1, 0] (Some [Fin (1/2), Fin (1/2), Fin (1/2)])
     [[[Fin 1], [Fin 0]], [[Fin 0], [Fin 1]], [[Fin 1], [Fin 0]]] None None
     = Inr (Fin (4/3))"
    by code_simp
qed

text \<open>The formula at a batch where the clipping is active: \<open>lambda_ = 1\<close>, weights of
  \<open>2\<close> before clipping.\<close>

theorem IPW_round_reward_formula_witness:
  "IPW_estimate_round_rewards
     \<lparr>lambda = Fin 1, estimator_name = ''ipw'', use_estimated_pscore = PyBool False\<rparr>
     [Fin 3, Fin 0, Fin 5] [0, 1, 0] [Fin (1/2), Fin (1/2), Fin (1/2)]
     [[[Fin 1], [Fin 0]], [[Fin 0], [Fin 1]], [[Fin 1], [Fin 0]]] (Some [0, 0, 0])
     = Inr [Fin 3, Fin 0, Fin 5] \<and>
   (\<exists>pi. at3 [[[Fin 1], [Fin 0]], [[Fin 0], [Fin 1]], [[Fin 1], [Fin 0]]] 2 0 0 = Inr pi \<and>
      Fin 5 = fmul (Fin 5) (fmin (fdiv pi (Fin (1/2))) (Fin 1)))"
proof -
  let ?self = "\<lparr>lambda = Fin 1, estimator_name = ''ipw'', use_estimated_pscore = PyBool False\<rparr>"
  let ?ad = "[[[Fin 1], [Fin 0]], [[Fin 0], [Fin 1]], [[Fin 1], [Fin 0]]]"
  have h: "IPW_estimate_round_rewards ?self [Fin 3, Fin 0, Fin 5] [0, 1, 0]
      [Fin (1/2), Fin (1/2), Fin (1/2)] ?ad (Some [0, 0, 0]) = Inr [Fin 3, Fin 0, Fin 5]"
    by code_simp
  have a: "\<forall>t < length [0, 1, 0::int]. \<exists>pi.
         at3 ?ad t ([0, 1, 0] ! t) (default_position ?ad (Some [0, 0, 0]) ! t) = Inr pi \<and>
         [Fin 3, Fin 0, Fin 5] ! t =
           fmul ([Fin 3, Fin 0, Fin 5] ! t)
             (fmin (fdiv pi ([Fin (1/2), Fin (1/2), Fin (1/2)] ! t)) (lambda ?self))"
    using IPW_round_reward_formula [of ?self "[Fin 3, Fin 0, Fin 5]" "[0, 1, 0]"
        "[Fin (1/2), Fin (1/2), Fin (1/2)]" ?ad "Some [0, 0, 0]" "[Fin 3, Fin 0, Fin 5]"] h
    by blast
  have lt: "(2::nat) < length [0, 1, 0::int]" by simp
  have "\<exists>pi. at3 ?ad 2 0 0 = Inr pi \<and>
      Fin 5 = fmul (Fin 5) (fmin (fdiv pi (Fin (1/2))) (Fin 1))"
    using a [rule_format, OF lt] by (simp add: default_position_def)
  with h show ?thesis by blast
qed

section \<open>Construction\<close>

lemma fne_self_iff: "fne x x \<longleftrightarrow> x = NaN"
  by (cases x) (auto simp: fne_def)

text \<open>Every \<^verbatim>\<open>__post_init__\<close> rejects a \<open>lambda_\<close> that is not an int or a float, is
  negative, or is \<open>nan\<close>.\<close>

lemma post_init_rejects_lambda:
  assumes "\<not> is_int_or_float lam \<or> flt (num_of lam) (Fin 0) \<or> num_of lam = NaN"
  shows "(\<exists>e. IPW_post_init lam name uep = Inl e) \<and> (\<exists>e. DR_post_init lam name uep = Inl e) \<and>
         (\<exists>e. SwitchDR_post_init lam name uep = Inl e) \<and>
         (\<exists>e. DRos_post_init lam name uep = Inl e) \<and>
         (\<exists>e. BIPW_post_init lam name = Inl e)"
  using assms
  by (auto simp: IPW_post_init_def DR_post_init_def SwitchDR_post_init_def DRos_post_init_def
        BIPW_post_init_def check_scalar_def fne_self_iff)

text \<open>\<^verbatim>\<open>InverseProbabilityWeighting\<close> and \<^verbatim>\<open>DoublyRobust\<close> (and the self-normalized
  estimators, which inherit the method) reject a \<open>use_estimated_pscore\<close> that is not a
  bool.\<close>

lemma IPW_DR_post_init_reject_non_bool:
  assumes "\<not> is_bool uep"
  shows "(\<exists>e. IPW_post_init lam name uep = Inl e) \<and> (\<exists>e. DR_post_init lam name uep = Inl e)"
  using assms
  by (auto simp: IPW_post_init_def DR_post_init_def split: option.splits)

text \<open>\<^verbatim>\<open>SwitchDoublyRobust\<close> and \<^verbatim>\<open>DoublyRobustWithShrinkage\<close> accept whatever
  \<open>use_estimated_pscore\<close> they are given, once \<open>lambda_\<close> is accepted.\<close>

lemma SwitchDR_DRos_post_init_any_flag:
  assumes "is_int_or_float lam" and "\<not> flt (num_of lam) (Fin 0)" and "num_of lam \<noteq> NaN"
  shows "SwitchDR_post_init lam name uep =
           Inr \<lparr>lambda = num_of lam, estimator_name = name, use_estimated_pscore = uep\<rparr> \<and>
         DRos_post_init lam name uep =
           Inr \<lparr>lambda = num_of lam, estimator_name = name, use_estimated_pscore = uep\<rparr>"
  using assms
  by (simp add: SwitchDR_post_init_def DRos_post_init_def check_scalar_def fne_self_iff)

text \<open>
  Claim C7, at the input where the code departs from it. Switch-DR and DRos are
  constructed with the string \<open>"yes"\<close> as \<open>use_estimated_pscore\<close> and no exception is
  raised: the field keeps the string. Doubly Robust, whose \<^verbatim>\<open>__post_init__\<close> they
  override, raises TypeError on the same arguments.
\<close>

theorem SwitchDR_DRos_accept_non_bool_use_estimated_pscore:
  "SwitchDR_post_init (PyFloat (Fin 1)) ''switch-dr'' (PyStr ''yes'') =
     Inr \<lparr>lambda = Fin 1, estimator_name = ''switch-dr'',
          use_estimated_pscore = PyStr ''yes''\<rparr> \<and>
   DRos_post_init (PyFloat (Fin 1)) ''dr-os'' (PyStr ''yes'') =
     Inr \<lparr>lambda = Fin 1, estimator_name = ''dr-os'',
          use_estimated_pscore = PyStr ''yes''\<rparr> \<and>
   DR_post_init (PyFloat (Fin 1)) ''dr'' (PyStr ''yes'') = Inl TypeError"
  by (simp add: SwitchDR_post_init_def DRos_post_init_def DR_post_init_def check_scalar_def
        fne_def)

section \<open>The default number of bootstrap samples\<close>

text \<open>Leaving \<open>n_bootstrap_samples\<close> out is passing 10000 for IPW, SNIPW, DM, the four
  doubly robust estimators and Balanced IPW.\<close>

lemma estimate_interval_default_10000:
  "IPW_estimate_interval_via rr bootstrap self reward action pscore action_dist position
     estimated_pscore alpha None random_state =
   IPW_estimate_interval_via rr bootstrap self reward action pscore action_dist position
     estimated_pscore alpha (Some 10000) random_state"
  "DM_estimate_interval bootstrap action_dist q position alpha None random_state =
   DM_estimate_interval bootstrap action_dist q position alpha (Some 10000) random_state"
  "DR_estimate_interval_via rr' bootstrap' self reward action pscore action_dist q position
     estimated_pscore alpha None random_state =
   DR_estimate_interval_via rr' bootstrap' self reward action pscore action_dist q position
     estimated_pscore alpha (Some 10000) random_state"
  "BIPW_estimate_interval bootstrap self' reward action w action_dist position
     alpha None random_state =
   BIPW_estimate_interval bootstrap self' reward action w action_dist position
     alpha (Some 10000) random_state"
  by (simp_all add: IPW_estimate_interval_via_def DM_estimate_interval_def
        DR_estimate_interval_via_def BIPW_estimate_interval_def)

text \<open>
  Claim C8, at the estimator where the code departs from it. For the Replay Method,
  leaving \<open>n_bootstrap_samples\<close> out is passing 100, not 10000: on the batch of claim
  C2 the bootstrap is called with 100 samples. (The docstring of the method says
  \<open>default=10000\<close>.)
\<close>

theorem RM_estimate_interval_default_is_100:
  "RM_estimate_interval bootstrap reward action action_dist position alpha None random_state =
   RM_estimate_interval bootstrap reward action action_dist position alpha (Some 100)
     random_state \<and>
   RM_estimate_interval (\<lambda>samples alpha n_bootstrap_samples random_state. n_bootstrap_samples)
     [Fin 1, Fin 0, Fin 1] [0, 1, 0]
     [[[Fin 1], [Fin 0]], [[Fin 0], [Fin 1]], [[Fin 1], [Fin 0]]] None None None None
     = Inr 100"
proof
  show "RM_estimate_interval bootstrap reward action action_dist position alpha None
          random_state =
        RM_estimate_interval bootstrap reward action action_dist position alpha (Some 100)
          random_state"
    by (simp add: RM_estimate_interval_def)
next
  show "RM_estimate_interval
     (\<lambda>samples alpha n_bootstrap_samples random_state. n_bootstrap_samples)
     [Fin 1, Fin 0, Fin 1] [0, 1, 0]
     [[[Fin 1], [Fin 0]], [[Fin 0], [Fin 1]], [[Fin 1], [Fin 0]]] None None None None
     = Inr 100"
    by code_simp
qed

section \<open>Validation before the estimate\<close>

text \<open>Eight of the nine estimators return no policy value for a batch that
  \<^verbatim>\<open>check_ope_inputs\<close> rejects.\<close>

lemma estimate_policy_value_rejects:
  "check_ope_inputs action_dist position (Some action) (Some reward) None None None = Some e
     \<Longrightarrow> RM_estimate_policy_value reward action action_dist position = Inl e"
  "check_ope_inputs action_dist position None None None (Some q) None = Some e
     \<Longrightarrow> DM_estimate_policy_value action_dist q position = Inl e"
  "check_array (if truthy (use_estimated_pscore self) then estimated_pscore else pscore)
       = Inr ps \<Longrightarrow>
   check_ope_inputs action_dist position (Some action) (Some reward) (Some ps) None None
       = Some e
     \<Longrightarrow> IPW_estimate_policy_value_via rr self reward action pscore action_dist position
           estimated_pscore = Inl e"
  "check_array (if truthy (use_estimated_pscore self) then estimated_pscore else pscore)
       = Inr ps \<Longrightarrow>
   check_ope_inputs action_dist position (Some action) (Some reward) (Some ps) (Some q) None
       = Some e
     \<Longrightarrow> DR_estimate_policy_value_via rr' self reward action pscore action_dist q position
           estimated_pscore = Inl e"
  by (auto simp: RM_estimate_policy_value_def DM_estimate_policy_value_def
        IPW_estimate_policy_value_via_def DR_estimate_policy_value_via_def
        split: if_splits)

text \<open>One round, two actions, one position, and an \<open>action_dist\<close> whose slice sums to
  \<open>1.4\<close>: \<^verbatim>\<open>check_ope_inputs\<close> rejects the batch.\<close>

lemma check_ope_inputs_rejects_slice_sum:
  "check_ope_inputs [[[Fin (7/10)], [Fin (7/10)]]] None (Some [0]) (Some [Fin 1]) None None
     (Some [Fin 1]) = Some ValueError"
  by code_simp

text \<open>
  Claim C9, at the estimator where the code departs from it. On the batch above, which
  \<^verbatim>\<open>check_ope_inputs\<close> rejects, \<open>estimate_interval\<close> of Balanced IPW raises, but
  \<open>estimate_policy_value\<close> of Balanced IPW returns the scalar \<open>1\<close>.
\<close>

theorem BIPW_estimate_policy_value_skips_check_ope_inputs:
  "BIPW_estimate_interval (\<lambda>samples alpha n_bootstrap_samples random_state. samples)
     \<lparr>lambda = PInf, estimator_name = ''b-ipw''\<rparr> [Fin 1] [0] [Fin 1]
     [[[Fin (7/10)], [Fin (7/10)]]] None None None None = Inl ValueError \<and>
   BIPW_estimate_policy_value \<lparr>lambda = PInf, estimator_name = ''b-ipw''\<rparr> [Fin 1] [0]
     [[[Fin (7/10)], [Fin (7/10)]]] [Fin 1] None = Inr (Fin 1)"
  by code_simp

section \<open>Shrinkage with \<open>lambda_ = 0\<close>\<close>

text \<open>One round, two actions, one position; the evaluation policy puts probability zero
  on the logged action. \<^verbatim>\<open>check_ope_inputs\<close> accepts the batch.\<close>

lemma check_ope_inputs_accepts_zero_weight:
  "check_ope_inputs [[[Fin 0], [Fin 1]]] (Some [0]) (Some [0]) (Some [Fin 1])
     (Some [Fin (1/2)]) (Some [[[Fin (3/10)], [Fin (4/10)]]]) None = None"
  by code_simp

text \<open>
  Claim C4, at the input where the code departs from it. On the batch above the
  importance weight is \<open>0\<close>. With \<open>lambda_ = 0\<close> the shrunk weight is
  \<open>(0 * 0) / (0 ** 2 + 0)\<close>, which is \<open>nan\<close>, and so is the round reward of DRos, while
  the round reward of the Direct Method is \<open>0.4\<close>.
\<close>

theorem DRos_lambda_zero_nan_at_zero_weight:
  "DRos_estimate_round_rewards
     \<lparr>lambda = Fin 0, estimator_name = ''dr-os'', use_estimated_pscore = PyBool False\<rparr>
     [Fin 1] [0] [Fin (1/2)] [[[Fin 0], [Fin 1]]] [[[Fin (3/10)], [Fin (4/10)]]] (Some [0])
     = Inr (Vec [NaN]) \<and>
   DM_estimate_round_rewards [[[Fin 0], [Fin 1]]] [[[Fin (3/10)], [Fin (4/10)]]] (Some [0])
     = Inr [Fin (2/5)]"
  by code_simp

section \<open>The policy value is the mean of the round rewards\<close>

lemma IPW_family_policy_value:
  assumes "(if truthy (use_estimated_pscore self) then check_array estimated_pscore
            else check_array pscore) = Inr ps"
    and "check_ope_inputs action_dist position (Some action) (Some reward) (Some ps)
           None None = None"
  shows "IPW_estimate_policy_value_via rr self reward action pscore action_dist position
           estimated_pscore =
         map_sum id fmean
           (rr self reward action ps action_dist (Some (default_position action_dist position)))"
  using assms
  by (simp add: IPW_estimate_policy_value_via_def split: sum.splits)

lemma DR_family_policy_value:
  assumes "(if truthy (use_estimated_pscore self) then check_array estimated_pscore
            else check_array pscore) = Inr ps"
    and "check_ope_inputs action_dist position (Some action) (Some reward) (Some ps)
           (Some q) None = None"
  shows "DR_estimate_policy_value_via rr self reward action pscore action_dist q position
           estimated_pscore =
         map_sum id nd_mean
           (rr self reward action ps action_dist q
              (Some (default_position action_dist position)))"
  using assms
  by (simp add: DR_estimate_policy_value_via_def split: sum.splits)

lemma mean_of_vector_result: "map_sum id nd_mean (map_sum id Vec r) = map_sum id fmean r"
  by (cases r) simp_all

text \<open>Called with a position vector, SNDR, Switch-DR and DRos return a vector or
  raise.\<close>

lemma subclass_round_rewards_array:
  "SNDR_estimate_round_rewards self reward action ps action_dist q (Some p) =
   map_sum id Vec (SNDR_round_rewards_array self reward action ps action_dist q p)"
  "SwitchDR_estimate_round_rewards self reward action ps action_dist q (Some p) =
   map_sum id Vec (SwitchDR_round_rewards_array self reward action ps action_dist q p)"
  "DRos_estimate_round_rewards self reward action ps action_dist q (Some p) =
   map_sum id Vec (DRos_round_rewards_array self reward action ps action_dist q p)"
  by (simp_all add: SNDR_estimate_round_rewards_def SwitchDR_estimate_round_rewards_def
        DRos_estimate_round_rewards_def)

lemma DR_policy_value:
  assumes "(if truthy (use_estimated_pscore self) then check_array estimated_pscore
            else check_array pscore) = Inr ps"
    and "check_ope_inputs action_dist position (Some action) (Some reward) (Some ps)
           (Some q) None = None"
  shows "DR_estimate_policy_value self reward action pscore action_dist q position
           estimated_pscore =
         map_sum id fmean
           (DR_estimate_round_rewards self reward action ps action_dist q
              (Some (default_position action_dist position)))"
  unfolding DR_estimate_policy_value_def DR_family_policy_value [OF assms]
    DR_round_rewards_method_def
  by (rule mean_of_vector_result)

lemma subclass_policy_value:
  assumes "(if truthy (use_estimated_pscore self) then check_array estimated_pscore
            else check_array pscore) = Inr ps"
    and "check_ope_inputs action_dist position (Some action) (Some reward) (Some ps)
           (Some q) None = None"
  shows "\<exists>r. SNDR_estimate_round_rewards self reward action ps action_dist q
              (Some (default_position action_dist position)) = map_sum id Vec r \<and>
            SNDR_estimate_policy_value self reward action pscore action_dist q position
              estimated_pscore = map_sum id fmean r"
    and "\<exists>r. SwitchDR_estimate_round_rewards self reward action ps action_dist q
              (Some (default_position action_dist position)) = map_sum id Vec r \<and>
            SwitchDR_estimate_policy_value self reward action pscore action_dist q position
              estimated_pscore = map_sum id fmean r"
    and "\<exists>r. DRos_estimate_round_rewards self reward action ps action_dist q
              (Some (default_position action_dist position)) = map_sum id Vec r \<and>
            DRos_estimate_policy_value self reward action pscore action_dist q position
              estimated_pscore = map_sum id fmean r"
  unfolding SNDR_estimate_policy_value_def SwitchDR_estimate_policy_value_def
    DRos_estimate_policy_value_def DR_family_policy_value [OF assms]
    subclass_round_rewards_array mean_of_vector_result
  by blast+

lemma RM_policy_value:
  assumes "check_ope_inputs action_dist position (Some action) (Some reward) None None None
             = None"
  shows "RM_estimate_policy_value reward action action_dist position =
         map_sum id fmean
           (RM_estimate_round_rewards reward action action_dist
              (Some (default_position action_dist position)))"
  using assms by (simp add: RM_estimate_policy_value_def split: sum.splits)

lemma DM_policy_value:
  assumes "check_ope_inputs action_dist position None None None (Some q) None = None"
  shows "DM_estimate_policy_value action_dist q position =
         map_sum id fmean
           (DM_estimate_round_rewards action_dist q
              (Some (default_position action_dist position)))"
  using assms by (simp add: DM_estimate_policy_value_def split: sum.splits)

lemma BIPW_policy_value:
  "BIPW_estimate_policy_value self' reward action action_dist w position =
   map_sum id fmean
     (BIPW_estimate_round_rewards self' reward action w action_dist
        (Some (default_position action_dist position)))"
  by (simp add: BIPW_estimate_policy_value_def split: sum.splits)

text \<open>
  Claim C1. For each of the nine estimators, on a batch that its validation accepts,
  \<open>estimate_policy_value\<close> is the arithmetic mean of the vector that the estimator's
  round-reward estimation returns on the same arrays, with the position replaced by
  zeros when it is None (and it raises what the round-reward estimation raises). For
  the estimators with a \<open>use_estimated_pscore\<close> flag the propensities \<open>ps\<close> are the ones
  the flag selects. Balanced IPW validates nothing beyond the ranks, so its equation
  holds for every batch. For SNDR, Switch-DR and DRos, whose round-reward estimation
  returns an array, the statement says in addition that what it returns on these
  arguments is a vector \<open>r\<close> (or an exception): the policy value is the mean of \<open>r\<close>.
\<close>

theorem estimate_policy_value_is_mean_of_round_rewards:
  "(check_ope_inputs action_dist position (Some action) (Some reward) None None None = None \<longrightarrow>
      RM_estimate_policy_value reward action action_dist position =
      map_sum id fmean
        (RM_estimate_round_rewards reward action action_dist
           (Some (default_position action_dist position)))) \<and>
   (check_ope_inputs action_dist position None None None (Some q) None = None \<longrightarrow>
      DM_estimate_policy_value action_dist q position =
      map_sum id fmean
        (DM_estimate_round_rewards action_dist q
           (Some (default_position action_dist position)))) \<and>
   ((if truthy (use_estimated_pscore self) then check_array estimated_pscore
     else check_array pscore) = Inr ps \<and>
    check_ope_inputs action_dist position (Some action) (Some reward) (Some ps) None None
      = None \<longrightarrow>
      IPW_estimate_policy_value self reward action pscore action_dist position
        estimated_pscore =
      map_sum id fmean
        (IPW_estimate_round_rewards self reward action ps action_dist
           (Some (default_position action_dist position))) \<and>
      SNIPW_estimate_policy_value self reward action pscore action_dist position
        estimated_pscore =
      map_sum id fmean
        (SNIPW_estimate_round_rewards self reward action ps action_dist
           (Some (default_position action_dist position)))) \<and>
   ((if truthy (use_estimated_pscore self) then check_array estimated_pscore
     else check_array pscore) = Inr ps \<and>
    check_ope_inputs action_dist position (Some action) (Some reward) (Some ps) (Some q) None
      = None \<longrightarrow>
      DR_estimate_policy_value self reward action pscore action_dist q position
        estimated_pscore =
      map_sum id fmean
        (DR_estimate_round_rewards self reward action ps action_dist q
           (Some (default_position action_dist position))) \<and>
      (\<exists>r. SNDR_estimate_round_rewards self reward action ps action_dist q
              (Some (default_position action_dist position)) = map_sum id Vec r \<and>
            SNDR_estimate_policy_value self reward action pscore action_dist q position
              estimated_pscore = map_sum id fmean r) \<and>
      (\<exists>r. SwitchDR_estimate_round_rewards self reward action ps action_dist q
              (Some (default_position action_dist position)) = map_sum id Vec r \<and>
            SwitchDR_estimate_policy_value self reward action pscore action_dist q position
              estimated_pscore = map_sum id fmean r) \<and>
      (\<exists>r. DRos_estimate_round_rewards self reward action ps action_dist q
              (Some (default_position action_dist position)) = map_sum id Vec r \<and>
            DRos_estimate_policy_value self reward action pscore action_dist q position
              estimated_pscore = map_sum id fmean r)) \<and>
   BIPW_estimate_policy_value self' reward action action_dist w position =
     map_sum id fmean
       (BIPW_estimate_round_rewards self' reward action w action_dist
          (Some (default_position action_dist position)))"
  unfolding IPW_estimate_policy_value_def SNIPW_estimate_policy_value_def
proof (intro conjI impI)
  assume "check_ope_inputs action_dist position (Some action) (Some reward) None None None
            = None"
  then show "RM_estimate_policy_value reward action action_dist position =
      map_sum id fmean
        (RM_estimate_round_rewards reward action action_dist
           (Some (default_position action_dist position)))"
    by (rule RM_policy_value)
next
  assume "check_ope_inputs action_dist position None None None (Some q) None = None"
  then show "DM_estimate_policy_value action_dist q position =
      map_sum id fmean
        (DM_estimate_round_rewards action_dist q
           (Some (default_position action_dist position)))"
    by (rule DM_policy_value)
next
  show "BIPW_estimate_policy_value self' reward action action_dist w position =
     map_sum id fmean
       (BIPW_estimate_round_rewards self' reward action w action_dist
          (Some (default_position action_dist position)))"
    by (rule BIPW_policy_value)
next
  assume a: "(if truthy (use_estimated_pscore self) then check_array estimated_pscore
     else check_array pscore) = Inr ps \<and>
    check_ope_inputs action_dist position (Some action) (Some reward) (Some ps) None None
      = None"
  show "IPW_estimate_policy_value_via IPW_estimate_round_rewards self reward action pscore
        action_dist position estimated_pscore =
      map_sum id fmean
        (IPW_estimate_round_rewards self reward action ps action_dist
           (Some (default_position action_dist position)))"
    using a by (intro IPW_family_policy_value) simp_all
  show "IPW_estimate_policy_value_via SNIPW_estimate_round_rewards self reward action pscore
        action_dist position estimated_pscore =
      map_sum id fmean
        (SNIPW_estimate_round_rewards self reward action ps action_dist
           (Some (default_position action_dist position)))"
    using a by (intro IPW_family_policy_value) simp_all
next
  assume a: "(if truthy (use_estimated_pscore self) then check_array estimated_pscore
     else check_array pscore) = Inr ps \<and>
    check_ope_inputs action_dist position (Some action) (Some reward) (Some ps) (Some q) None
      = None"
  then have s: "(if truthy (use_estimated_pscore self) then check_array estimated_pscore
     else check_array pscore) = Inr ps"
    and c: "check_ope_inputs action_dist position (Some action) (Some reward) (Some ps)
      (Some q) None = None"
    by simp_all
  show "DR_estimate_policy_value self reward action pscore action_dist q position
        estimated_pscore =
      map_sum id fmean
        (DR_estimate_round_rewards self reward action ps action_dist q
           (Some (default_position action_dist position)))"
    using s c by (rule DR_policy_value)
  show "\<exists>r. SNDR_estimate_round_rewards self reward action ps action_dist q
              (Some (default_position action_dist position)) = map_sum id Vec r \<and>
            SNDR_estimate_policy_value self reward action pscore action_dist q position
              estimated_pscore = map_sum id fmean r"
    using s c by (rule subclass_policy_value(1))
  show "\<exists>r. SwitchDR_estimate_round_rewards self reward action ps action_dist q
              (Some (default_position action_dist position)) = map_sum id Vec r \<and>
            SwitchDR_estimate_policy_value self reward action pscore action_dist q position
              estimated_pscore = map_sum id fmean r"
    using s c by (rule subclass_policy_value(2))
  show "\<exists>r. DRos_estimate_round_rewards self reward action ps action_dist q
              (Some (default_position action_dist position)) = map_sum id Vec r \<and>
            DRos_estimate_policy_value self reward action pscore action_dist q position
              estimated_pscore = map_sum id fmean r"
    using s c by (rule subclass_policy_value(3))
qed

text \<open>The Replay Method on the three rounds of claim C2, and SNDR on two rounds with
  two actions.\<close>

theorem estimate_policy_value_is_mean_of_round_rewards_witness:
  "check_ope_inputs [[[Fin 1], [Fin 0]], [[Fin 0], [Fin 1]], [[Fin 1], [Fin 0]]] None
     (Some [0, 1, 0]) (Some [Fin 1, Fin 0, Fin 1]) None None None = None \<and>
   RM_estimate_round_rewards [Fin 1, Fin 0, Fin 1] [0, 1, 0]
     [[[Fin 1], [Fin 0]], [[Fin 0], [Fin 1]], [[Fin 1], [Fin 0]]] (Some [0, 0, 0])
     = Inr [Fin 1, Fin 0, Fin 1] \<and>
   RM_estimate_policy_value [Fin 1, Fin 0, Fin 1] [0, 1, 0]
     [[[Fin 1], [Fin 0]], [[Fin 0], [Fin 1]], [[Fin 1], [Fin 0]]] None = Inr (Fin (2/3)) \<and>
   check_ope_inputs [[[Fin (1/2)], [Fin (1/2)]], [[Fin (1/4)], [Fin (3/4)]]] None
     (Some [0, 1]) (Some [Fin 1, Fin 0]) (Some [Fin (1/2), Fin (1/4)])
     (Some [[[Fin (1/5)], [Fin (2/5)]], [[Fin (3/5)], [Fin (4/5)]]]) None = None \<and>
   SNDR_estimate_round_rewards
     \<lparr>lambda = PInf, estimator_name = ''sndr'', use_estimated_pscore = PyBool False\<rparr>
     [Fin 1, Fin 0] [0, 1] [Fin (1/2), Fin (1/4)]
     [[[Fin (1/2)], [Fin (1/2)]], [[Fin (1/4)], [Fin (3/4)]]]
     [[[Fin (1/5)], [Fin (2/5)]], [[Fin (3/5)], [Fin (4/5)]]] (Some [0, 0])
     = Inr (Vec [Fin (7/10), Fin (- (9/20))]) \<and>
   SNDR_estimate_policy_value
     \<lparr>lambda = PInf, estimator_name = ''sndr'', use_estimated_pscore = PyBool False\<rparr>
     [Fin 1, Fin 0] [0, 1] (Some [Fin (1/2), Fin (1/4)])
     [[[Fin (1/2)], [Fin (1/2)]], [[Fin (1/4)], [Fin (3/4)]]]
     [[[Fin (1/5)], [Fin (2/5)]], [[Fin (3/5)], [Fin (4/5)]]] None None
     = Inr (Fin (1/8))"
proof -
  let ?ad = "[[[Fin 1], [Fin 0]], [[Fin 0], [Fin 1]], [[Fin 1], [Fin 0]]]"
  let ?r = "[Fin 1, Fin 0, Fin 1]"
  let ?a = "[0, 1, 0] :: int list"
  have c1: "check_ope_inputs ?ad None (Some ?a) (Some ?r) None None None = None"
    by code_simp
  have r1: "RM_estimate_round_rewards ?r ?a ?ad (Some [0, 0, 0]) = Inr [Fin 1, Fin 0, Fin 1]"
    by code_simp
  have d1: "default_position ?ad None = [0, 0, 0]"
    by (simp add: default_position_def)
  have m1: "fmean [Fin 1, Fin 0, Fin 1] = Fin (2/3)"
    by (simp add: fmean_def)
  have "RM_estimate_policy_value ?r ?a ?ad None =
      map_sum id fmean (RM_estimate_round_rewards ?r ?a ?ad (Some (default_position ?ad None)))"
    using estimate_policy_value_is_mean_of_round_rewards
      [where action_dist = ?ad and position = None and action = ?a and reward = ?r] c1
    by blast
  then have e1: "RM_estimate_policy_value ?r ?a ?ad None = Inr (Fin (2/3))"
    by (simp add: d1 r1 m1)
  let ?self = "\<lparr>lambda = PInf, estimator_name = ''sndr'', use_estimated_pscore = PyBool False\<rparr>"
  let ?ad2 = "[[[Fin (1/2)], [Fin (1/2)]], [[Fin (1/4)], [Fin (3/4)]]]"
  let ?q = "[[[Fin (1/5)], [Fin (2/5)]], [[Fin (3/5)], [Fin (4/5)]]]"
  let ?r2 = "[Fin 1, Fin 0]"
  let ?a2 = "[0, 1] :: int list"
  let ?ps = "[Fin (1/2), Fin (1/4)]"
  have c2: "check_ope_inputs ?ad2 None (Some ?a2) (Some ?r2) (Some ?ps) (Some ?q) None = None"
    by code_simp
  have r2: "SNDR_estimate_round_rewards ?self ?r2 ?a2 ?ps ?ad2 ?q (Some [0, 0])
      = Inr (Vec [Fin (7/10), Fin (- (9/20))])"
    by code_simp
  have d2: "default_position ?ad2 None = [0, 0]"
    by (simp add: default_position_def)
  have m2: "fmean [Fin (7/10), Fin (- (9/20))] = Fin (1/8)"
    by (simp add: fmean_def)
  have s2: "(if truthy (use_estimated_pscore ?self) then check_array None
             else check_array (Some ?ps)) = Inr ?ps"
    by (simp add: check_array_def)
  have "\<exists>r. SNDR_estimate_round_rewards ?self ?r2 ?a2 ?ps ?ad2 ?q
              (Some (default_position ?ad2 None)) = map_sum id Vec r \<and>
            SNDR_estimate_policy_value ?self ?r2 ?a2 (Some ?ps) ?ad2 ?q None None
              = map_sum id fmean r"
    using estimate_policy_value_is_mean_of_round_rewards
      [where action_dist = ?ad2 and position = None and action = ?a2 and reward = ?r2
         and self = ?self and pscore = "Some ?ps" and estimated_pscore = None
         and ps = ?ps and q = ?q] c2 s2
    by blast
  then obtain r where r: "Inr (Vec [Fin (7/10), Fin (- (9/20))]) = map_sum id Vec r"
    and e: "SNDR_estimate_policy_value ?self ?r2 ?a2 (Some ?ps) ?ad2 ?q None None
              = map_sum id fmean r"
    unfolding d2 r2 by blast
  from r have "r = Inr [Fin (7/10), Fin (- (9/20))]" by (cases r) simp_all
  with e have e2: "SNDR_estimate_policy_value ?self ?r2 ?a2 (Some ?ps) ?ad2 ?q None None
      = Inr (Fin (1/8))"
    by (simp add: m2)
  from c1 r1 e1 c2 r2 e2 show ?thesis by blast
qed

section \<open>The position argument\<close>

lemma norm_index_Some_D:
  "norm_index n i = Some j \<Longrightarrow> j < n \<and> - int n \<le> i \<and> i < int n"
  by (auto simp: norm_index_def split: if_splits)

lemma at3_Inr_D:
  assumes "at3 arr t a p = Inr v"
  shows "t < length arr \<and>
    (\<exists>j k. norm_index (length (arr ! t)) a = Some j \<and>
           norm_index (length (arr ! t ! j)) p = Some k \<and> v = arr ! t ! j ! k)"
  using assms by (auto simp: at3_def split: if_splits option.splits)

text \<open>The Replay Method, IPW, SNIPW, the Direct Method, DR and Balanced IPW read a
  position that is None as the vector of zeros of length \<open>action_dist.shape[0]\<close>.\<close>

lemma position_None_is_zeros:
  "RM_estimate_round_rewards reward action action_dist None =
   RM_estimate_round_rewards reward action action_dist (Some (replicate (length action_dist) 0))"
  "IPW_estimate_round_rewards self reward action pscore action_dist None =
   IPW_estimate_round_rewards self reward action pscore action_dist
     (Some (replicate (length action_dist) 0))"
  "SNIPW_estimate_round_rewards self reward action pscore action_dist None =
   SNIPW_estimate_round_rewards self reward action pscore action_dist
     (Some (replicate (length action_dist) 0))"
  "DM_estimate_round_rewards action_dist q None =
   DM_estimate_round_rewards action_dist q (Some (replicate (length action_dist) 0))"
  "DR_estimate_round_rewards self reward action pscore action_dist q None =
   DR_estimate_round_rewards self reward action pscore action_dist q
     (Some (replicate (length action_dist) 0))"
  "BIPW_estimate_round_rewards self' reward action w action_dist None =
   BIPW_estimate_round_rewards self' reward action w action_dist
     (Some (replicate (length action_dist) 0))"
  by (simp_all add: RM_estimate_round_rewards_def IPW_estimate_round_rewards_def
        SNIPW_estimate_round_rewards_def DM_estimate_round_rewards_def
        DR_estimate_round_rewards_def BIPW_estimate_round_rewards_def default_position_def)

text \<open>SNDR, Switch-DR and DRos return no vector when the position is None: what they
  return then, if anything, has the shape \<open>(n, 1, len_list)\<close>.\<close>

lemma of_rows_no_vector: "map_sum id of_rows r \<noteq> Inr (Vec v)"
  by (cases r) (simp_all add: of_rows_def)

lemma position_None_no_vector:
  "SNDR_estimate_round_rewards self reward action pscore action_dist q None \<noteq> Inr (Vec v)"
  "SwitchDR_estimate_round_rewards self reward action pscore action_dist q None \<noteq> Inr (Vec v)"
  "DRos_estimate_round_rewards self reward action pscore action_dist q None \<noteq> Inr (Vec v)"
  by (simp_all add: SNDR_estimate_round_rewards_def SwitchDR_estimate_round_rewards_def
        DRos_estimate_round_rewards_def of_rows_no_vector)

lemma vector_result_D: "map_sum id Vec r = Inr x \<Longrightarrow> \<exists>v. x = Vec v \<and> r = Inr v"
  by (cases r) auto

text \<open>So None is not read as the vector of zeros by these three: when the call with
  zeros returns, the call with None returns something else or raises.\<close>

lemma position_None_is_not_zeros:
  "SNDR_estimate_round_rewards self reward action pscore action_dist q (Some zeros) = Inr r
     \<Longrightarrow> SNDR_estimate_round_rewards self reward action pscore action_dist q None \<noteq> Inr r"
  "SwitchDR_estimate_round_rewards self reward action pscore action_dist q (Some zeros) = Inr r
     \<Longrightarrow> SwitchDR_estimate_round_rewards self reward action pscore action_dist q None \<noteq> Inr r"
  "DRos_estimate_round_rewards self reward action pscore action_dist q (Some zeros) = Inr r
     \<Longrightarrow> DRos_estimate_round_rewards self reward action pscore action_dist q None \<noteq> Inr r"
  using position_None_no_vector [of self reward action pscore action_dist q]
  by (auto simp: subclass_round_rewards_array dest!: vector_result_D)

text \<open>
  What the three do with None on small batches. One round, two actions, one position:
  an array of shape \<open>(1, 1, 1)\<close>, where DR returns the vector of shape \<open>(1,)\<close>. Two
  rounds, two actions, one position: the weights \<open>iw\<close> have the shape \<open>(2, 1, 2)\<close>, which
  the in-place addition to the average of shape \<open>(2, 1, 1)\<close> rejects with ValueError.
\<close>

lemma position_None_one_round:
  "SNDR_estimate_round_rewards
     \<lparr>lambda = PInf, estimator_name = ''sndr'', use_estimated_pscore = PyBool False\<rparr>
     [Fin 1] [0] [Fin (1/2)] [[[Fin (1/2)], [Fin (1/2)]]] [[[Fin (1/5)], [Fin (2/5)]]] None
     = Inr (Arr3 [[[Fin (11/10)]]])"
  "SwitchDR_estimate_round_rewards
     \<lparr>lambda = Fin 1, estimator_name = ''switch-dr'', use_estimated_pscore = PyBool False\<rparr>
     [Fin 1] [0] [Fin (1/2)] [[[Fin (1/2)], [Fin (1/2)]]] [[[Fin (1/5)], [Fin (2/5)]]] None
     = Inr (Arr3 [[[Fin (11/10)]]])"
  "DRos_estimate_round_rewards
     \<lparr>lambda = Fin 1, estimator_name = ''dr-os'', use_estimated_pscore = PyBool False\<rparr>
     [Fin 1] [0] [Fin (1/2)] [[[Fin (1/2)], [Fin (1/2)]]] [[[Fin (1/5)], [Fin (2/5)]]] None
     = Inr (Arr3 [[[Fin (7/10)]]])"
  "DR_estimate_round_rewards
     \<lparr>lambda = Fin 1, estimator_name = ''dr'', use_estimated_pscore = PyBool False\<rparr>
     [Fin 1] [0] [Fin (1/2)] [[[Fin (1/2)], [Fin (1/2)]]] [[[Fin (1/5)], [Fin (2/5)]]] None
     = Inr [Fin (11/10)]"
  by code_simp+

lemma position_None_two_rounds:
  "SNDR_estimate_round_rewards
     \<lparr>lambda = PInf, estimator_name = ''sndr'', use_estimated_pscore = PyBool False\<rparr>
     [Fin 1, Fin 0] [0, 1] [Fin (1/2), Fin (1/4)]
     [[[Fin (1/2)], [Fin (1/2)]], [[Fin (1/4)], [Fin (3/4)]]]
     [[[Fin (1/5)], [Fin (2/5)]], [[Fin (3/5)], [Fin (4/5)]]] None = Inl ValueError"
  "SwitchDR_estimate_round_rewards
     \<lparr>lambda = Fin 1, estimator_name = ''switch-dr'', use_estimated_pscore = PyBool False\<rparr>
     [Fin 1, Fin 0] [0, 1] [Fin (1/2), Fin (1/4)]
     [[[Fin (1/2)], [Fin (1/2)]], [[Fin (1/4)], [Fin (3/4)]]]
     [[[Fin (1/5)], [Fin (2/5)]], [[Fin (3/5)], [Fin (4/5)]]] None = Inl ValueError"
  "DRos_estimate_round_rewards
     \<lparr>lambda = Fin 1, estimator_name = ''dr-os'', use_estimated_pscore = PyBool False\<rparr>
     [Fin 1, Fin 0] [0, 1] [Fin (1/2), Fin (1/4)]
     [[[Fin (1/2)], [Fin (1/2)]], [[Fin (1/4)], [Fin (3/4)]]]
     [[[Fin (1/5)], [Fin (2/5)]], [[Fin (3/5)], [Fin (4/5)]]] None = Inl ValueError"
  "DR_estimate_round_rewards
     \<lparr>lambda = Fin 1, estimator_name = ''dr'', use_estimated_pscore = PyBool False\<rparr>
     [Fin 1, Fin 0] [0, 1] [Fin (1/2), Fin (1/4)]
     [[[Fin (1/2)], [Fin (1/2)]], [[Fin (1/4)], [Fin (3/4)]]]
     [[[Fin (1/5)], [Fin (2/5)]], [[Fin (3/5)], [Fin (4/5)]]] None
     = Inr [Fin (11/10), Fin (- (1/20))]"
  by code_simp+

text \<open>
  Claim C10 as it is written asks, for a well-defined result of the three, a position
  vector of length \<open>T\<close>. Two rounds, two actions and one position, with the position
  vector \<open>[0]\<close> of length one: numpy broadcasts it against the two logged actions, and
  each of the three returns the vector of two round rewards that it returns for the
  position \<open>[0, 0]\<close>.
\<close>

theorem position_of_length_one_is_broadcast:
  "SNDR_estimate_round_rewards
     \<lparr>lambda = PInf, estimator_name = ''sndr'', use_estimated_pscore = PyBool False\<rparr>
     [Fin 1, Fin 0] [0, 1] [Fin (1/2), Fin (1/4)]
     [[[Fin (1/2)], [Fin (1/2)]], [[Fin (1/4)], [Fin (3/4)]]]
     [[[Fin (1/5)], [Fin (2/5)]], [[Fin (3/5)], [Fin (4/5)]]] (Some [0])
     = Inr (Vec [Fin (7/10), Fin (- (9/20))]) \<and>
   SwitchDR_estimate_round_rewards
     \<lparr>lambda = Fin 1, estimator_name = ''switch-dr'', use_estimated_pscore = PyBool False\<rparr>
     [Fin 1, Fin 0] [0, 1] [Fin (1/2), Fin (1/4)]
     [[[Fin (1/2)], [Fin (1/2)]], [[Fin (1/4)], [Fin (3/4)]]]
     [[[Fin (1/5)], [Fin (2/5)]], [[Fin (3/5)], [Fin (4/5)]]] (Some [0])
     = Inr (Vec [Fin (11/10), Fin (3/4)]) \<and>
   DRos_estimate_round_rewards
     \<lparr>lambda = Fin 1, estimator_name = ''dr-os'', use_estimated_pscore = PyBool False\<rparr>
     [Fin 1, Fin 0] [0, 1] [Fin (1/2), Fin (1/4)]
     [[[Fin (1/2)], [Fin (1/2)]], [[Fin (1/4)], [Fin (3/4)]]]
     [[[Fin (1/5)], [Fin (2/5)]], [[Fin (3/5)], [Fin (4/5)]]] (Some [0])
     = Inr (Vec [Fin (7/10), Fin (51/100)]) \<and>
   length [0 :: int] = 1 \<and> length [0 :: int, 1] = 2"
proof -
  have "SNDR_estimate_round_rewards
     \<lparr>lambda = PInf, estimator_name = ''sndr'', use_estimated_pscore = PyBool False\<rparr>
     [Fin 1, Fin 0] [0, 1] [Fin (1/2), Fin (1/4)]
     [[[Fin (1/2)], [Fin (1/2)]], [[Fin (1/4)], [Fin (3/4)]]]
     [[[Fin (1/5)], [Fin (2/5)]], [[Fin (3/5)], [Fin (4/5)]]] (Some [0])
     = Inr (Vec [Fin (7/10), Fin (- (9/20))])"
    by code_simp
  moreover have "SwitchDR_estimate_round_rewards
     \<lparr>lambda = Fin 1, estimator_name = ''switch-dr'', use_estimated_pscore = PyBool False\<rparr>
     [Fin 1, Fin 0] [0, 1] [Fin (1/2), Fin (1/4)]
     [[[Fin (1/2)], [Fin (1/2)]], [[Fin (1/4)], [Fin (3/4)]]]
     [[[Fin (1/5)], [Fin (2/5)]], [[Fin (3/5)], [Fin (4/5)]]] (Some [0])
     = Inr (Vec [Fin (11/10), Fin (3/4)])"
    by code_simp
  moreover have "DRos_estimate_round_rewards
     \<lparr>lambda = Fin 1, estimator_name = ''dr-os'', use_estimated_pscore = PyBool False\<rparr>
     [Fin 1, Fin 0] [0, 1] [Fin (1/2), Fin (1/4)]
     [[[Fin (1/2)], [Fin (1/2)]], [[Fin (1/4)], [Fin (3/4)]]]
     [[[Fin (1/5)], [Fin (2/5)]], [[Fin (3/5)], [Fin (4/5)]]] (Some [0])
     = Inr (Vec [Fin (7/10), Fin (51/100)])"
    by code_simp
  ultimately show ?thesis by simp
qed

text \<open>The index vectors of a call that returns: they broadcast, and when there is a
  logged action every position is paired with one and checked against the axis.\<close>

lemma broadcast_Inr_D:
  "broadcast e f xs ys = Inr zs \<Longrightarrow>
   length xs = length ys \<or> length xs = 1 \<or> length ys = 1"
  by (auto simp: broadcast_def split: if_splits)

lemma broadcast_covers_right:
  assumes "broadcast e Pair xs ys = Inr idx" and "xs \<noteq> []" and "y \<in> set ys"
  shows "\<exists>x. (x, y) \<in> set idx"
proof (cases "length xs = length ys")
  case True
  from assms(3) obtain i where i: "i < length ys" "y = ys ! i"
    by (auto simp: in_set_conv_nth)
  with True have "zip xs ys ! i = (xs ! i, y)" "i < length (zip xs ys)" by simp_all
  then have "(xs ! i, y) \<in> set (zip xs ys)" by (metis nth_mem)
  with assms(1) True show ?thesis by (auto simp: broadcast_def)
next
  case False
  show ?thesis
  proof (cases "length xs = 1")
    case True
    with assms(1) False have "idx = map (Pair (hd xs)) ys" by (simp add: broadcast_def)
    with assms(3) show ?thesis by auto
  next
    case one: False
    with assms(1) False have ly: "length ys = 1" and idx: "idx = map (\<lambda>x. (x, hd ys)) xs"
      by (auto simp: broadcast_def split: if_splits)
    from ly assms(3) have "y = hd ys" by (cases ys) auto
    with idx assms(2) have "(hd xs, y) \<in> set idx" by (cases xs) auto
    then show ?thesis ..
  qed
qed

lemma collect_Inr_member:
  assumes "collect (map f xs) = Inr vs" and "x \<in> set xs"
  shows "\<exists>v. f x = Inr v"
proof -
  from assms(1) have "map f xs = map Inr vs" by (rule collect_Inr_D)
  with assms(2) show ?thesis
    by (metis (no_types, lifting) image_iff list.set_map)
qed

lemma take_along_bc_in_range:
  assumes ta: "take_along_bc arr action p = Inr g" and rect: "rectangular arr"
  shows "(length p = length action \<or> length p = 1 \<or> length action = 1) \<and>
         (action \<noteq> [] \<longrightarrow>
            (\<forall>x \<in> set p. - int (len_list_of arr) \<le> x \<and> x < int (len_list_of arr)))"
proof -
  from ta obtain idx where
    idx: "broadcast IndexError Pair (zip [0..<length action] action) p = Inr idx"
    and col: "collect (map (\<lambda>((t, a), p). at3 arr t a p) idx) = Inr g"
    by (auto simp: take_along_bc_def split: sum.splits)
  from broadcast_Inr_D [OF idx]
  have len: "length p = length action \<or> length p = 1 \<or> length action = 1" by auto
  have "- int (len_list_of arr) \<le> x \<and> x < int (len_list_of arr)"
    if ne: "action \<noteq> []" and x: "x \<in> set p" for x
  proof -
    from ne have "zip [0..<length action] action \<noteq> []" by (cases action) simp_all
    from broadcast_covers_right [OF idx this x]
    obtain t a where "((t, a), x) \<in> set idx" by auto
    from collect_Inr_member [OF col this]
    obtain v where "at3 arr t a x = Inr v" by auto
    then obtain j k where tl: "t < length arr"
      and j: "norm_index (length (arr ! t)) a = Some j"
      and k: "norm_index (length (arr ! t ! j)) x = Some k"
      using at3_Inr_D by blast
    from j have "j < length (arr ! t)" using norm_index_Some_D by blast
    with tl have "arr ! t \<in> set arr" "arr ! t ! j \<in> set (arr ! t)" by simp_all
    with rect have "length (arr ! t ! j) = len_list_of arr" by (auto simp: rectangular_def)
    with k show ?thesis using norm_index_Some_D by fastforce
  qed
  with len show ?thesis by blast
qed

lemma subclass_vector_take_along:
  assumes "SNDR_estimate_round_rewards self reward action pscore action_dist q position
             = Inr (Vec rs)
         \<or> SwitchDR_estimate_round_rewards self reward action pscore action_dist q position
             = Inr (Vec rs)
         \<or> DRos_estimate_round_rewards self reward action pscore action_dist q position
             = Inr (Vec rs)"
  shows "\<exists>p g. position = Some p \<and> take_along_bc action_dist action p = Inr g"
proof (cases position)
  case None
  with assms show ?thesis
    using position_None_no_vector [of self reward action pscore action_dist q rs] by simp
next
  case (Some p)
  with assms have "SNDR_round_rewards_array self reward action pscore action_dist q p = Inr rs
      \<or> SwitchDR_round_rewards_array self reward action pscore action_dist q p = Inr rs
      \<or> DRos_round_rewards_array self reward action pscore action_dist q p = Inr rs"
    by (auto simp: subclass_round_rewards_array dest!: vector_result_D)
  then have "\<exists>g. take_along_bc action_dist action p = Inr g"
    by (auto simp: SNDR_round_rewards_array_def SwitchDR_round_rewards_array_def
          DRos_round_rewards_array_def split: sum.splits)
  with Some show ?thesis by simp
qed

text \<open>
  Claim C10, amended. The private round-reward estimation of SNDR, Switch-DR and DRos
  does not replace a position that is None by the vector of zeros, as the Replay
  Method, IPW, SNIPW, the Direct Method, DR and Balanced IPW do: with None none of the
  three returns a vector of round rewards, and none returns what it returns for the
  vector of zeros. Whenever one of the three returns a vector (on a three-dimensional
  \<open>action_dist\<close>), the position is a vector that numpy can broadcast against the logged
  actions, that is one of the length of \<open>action\<close> or of length one, unless there is a
  single logged action; and if there is a logged action at all, each entry of the
  position is an index numpy accepts for the last axis of \<open>action_dist\<close>.
\<close>

theorem subclasses_require_position:
  "SNDR_estimate_round_rewards self reward action pscore action_dist q None \<noteq> Inr (Vec v) \<and>
   SwitchDR_estimate_round_rewards self reward action pscore action_dist q None \<noteq> Inr (Vec v) \<and>
   DRos_estimate_round_rewards self reward action pscore action_dist q None \<noteq> Inr (Vec v) \<and>
   (SNDR_estimate_round_rewards self reward action pscore action_dist q
      (Some (replicate (length action_dist) 0)) = Inr r \<longrightarrow>
    SNDR_estimate_round_rewards self reward action pscore action_dist q None \<noteq> Inr r) \<and>
   (SwitchDR_estimate_round_rewards self reward action pscore action_dist q
      (Some (replicate (length action_dist) 0)) = Inr r \<longrightarrow>
    SwitchDR_estimate_round_rewards self reward action pscore action_dist q None \<noteq> Inr r) \<and>
   (DRos_estimate_round_rewards self reward action pscore action_dist q
      (Some (replicate (length action_dist) 0)) = Inr r \<longrightarrow>
    DRos_estimate_round_rewards self reward action pscore action_dist q None \<noteq> Inr r) \<and>
   RM_estimate_round_rewards reward action action_dist None =
     RM_estimate_round_rewards reward action action_dist
       (Some (replicate (length action_dist) 0)) \<and>
   IPW_estimate_round_rewards self reward action pscore action_dist None =
     IPW_estimate_round_rewards self reward action pscore action_dist
       (Some (replicate (length action_dist) 0)) \<and>
   SNIPW_estimate_round_rewards self reward action pscore action_dist None =
     SNIPW_estimate_round_rewards self reward action pscore action_dist
       (Some (replicate (length action_dist) 0)) \<and>
   DM_estimate_round_rewards action_dist q None =
     DM_estimate_round_rewards action_dist q (Some (replicate (length action_dist) 0)) \<and>
   DR_estimate_round_rewards self reward action pscore action_dist q None =
     DR_estimate_round_rewards self reward action pscore action_dist q
       (Some (replicate (length action_dist) 0)) \<and>
   BIPW_estimate_round_rewards self' reward action w action_dist None =
     BIPW_estimate_round_rewards self' reward action w action_dist
       (Some (replicate (length action_dist) 0)) \<and>
   (rectangular action_dist \<longrightarrow>
    (SNDR_estimate_round_rewards self reward action pscore action_dist q position
       = Inr (Vec rs) \<or>
     SwitchDR_estimate_round_rewards self reward action pscore action_dist q position
       = Inr (Vec rs) \<or>
     DRos_estimate_round_rewards self reward action pscore action_dist q position
       = Inr (Vec rs)) \<longrightarrow>
    (\<exists>p. position = Some p \<and>
       (length p = length action \<or> length p = 1 \<or> length action = 1) \<and>
       (action \<noteq> [] \<longrightarrow>
          (\<forall>x \<in> set p. - int (len_list_of action_dist) \<le> x \<and>
                         x < int (len_list_of action_dist)))))"
proof -
  have "\<exists>p. position = Some p \<and>
       (length p = length action \<or> length p = 1 \<or> length action = 1) \<and>
       (action \<noteq> [] \<longrightarrow>
          (\<forall>x \<in> set p. - int (len_list_of action_dist) \<le> x \<and>
                         x < int (len_list_of action_dist)))"
    if rect: "rectangular action_dist"
    and r: "SNDR_estimate_round_rewards self reward action pscore action_dist q position
       = Inr (Vec rs) \<or>
     SwitchDR_estimate_round_rewards self reward action pscore action_dist q position
       = Inr (Vec rs) \<or>
     DRos_estimate_round_rewards self reward action pscore action_dist q position
       = Inr (Vec rs)"
  proof -
    from subclass_vector_take_along [OF r]
    obtain p g where p: "position = Some p" "take_along_bc action_dist action p = Inr g"
      by blast
    from take_along_bc_in_range [OF p(2) rect] p(1) show ?thesis by blast
  qed
  then show ?thesis
    using position_None_no_vector [of self reward action pscore action_dist q v]
      position_None_is_not_zeros
        [of self reward action pscore action_dist q "replicate (length action_dist) 0" r]
      position_None_is_zeros(1) [of reward action action_dist]
      position_None_is_zeros(2) [of self reward action pscore action_dist]
      position_None_is_zeros(3) [of self reward action pscore action_dist]
      position_None_is_zeros(4) [of action_dist q]
      position_None_is_zeros(5) [of self reward action pscore action_dist q]
      position_None_is_zeros(6) [of self' reward action w action_dist]
    by blast
qed

text \<open>Two rounds, two actions and one position, Switch-DR with the position \<open>[0]\<close>.\<close>

theorem subclasses_require_position_witness:
  "rectangular [[[Fin (1/2)], [Fin (1/2)]], [[Fin (1/4)], [Fin (3/4)]]] \<and>
   SwitchDR_estimate_round_rewards
     \<lparr>lambda = Fin 1, estimator_name = ''switch-dr'', use_estimated_pscore = PyBool False\<rparr>
     [Fin 1, Fin 0] [0, 1] [Fin (1/2), Fin (1/4)]
     [[[Fin (1/2)], [Fin (1/2)]], [[Fin (1/4)], [Fin (3/4)]]]
     [[[Fin (1/5)], [Fin (2/5)]], [[Fin (3/5)], [Fin (4/5)]]] (Some [0])
     = Inr (Vec [Fin (11/10), Fin (3/4)]) \<and>
   [0, 1 :: int] \<noteq> [] \<and>
   length [0 :: int] = 1 \<and>
   - int (len_list_of [[[Fin (1/2)], [Fin (1/2)]], [[Fin (1/4)], [Fin (3/4)]]]) \<le> 0 \<and>
   (0::int) < int (len_list_of [[[Fin (1/2)], [Fin (1/2)]], [[Fin (1/4)], [Fin (3/4)]]])"
proof -
  let ?self = "\<lparr>lambda = Fin 1, estimator_name = ''switch-dr'',
                 use_estimated_pscore = PyBool False\<rparr>"
  let ?ad = "[[[Fin (1/2)], [Fin (1/2)]], [[Fin (1/4)], [Fin (3/4)]]]"
  let ?q = "[[[Fin (1/5)], [Fin (2/5)]], [[Fin (3/5)], [Fin (4/5)]]]"
  let ?r = "[Fin 1, Fin 0]"
  let ?ps = "[Fin (1/2), Fin (1/4)]"
  have rect: "rectangular ?ad" by code_simp
  have sw: "SwitchDR_estimate_round_rewards ?self ?r [0, 1] ?ps ?ad ?q (Some [0])
      = Inr (Vec [Fin (11/10), Fin (3/4)])"
    by code_simp
  have "\<exists>p. Some [0] = Some p \<and>
       (length p = length [0, 1 :: int] \<or> length p = 1 \<or> length [0, 1 :: int] = 1) \<and>
       ([0, 1 :: int] \<noteq> [] \<longrightarrow>
          (\<forall>x \<in> set p. - int (len_list_of ?ad) \<le> x \<and> x < int (len_list_of ?ad)))"
    using subclasses_require_position [of ?self ?r "[0, 1]" ?ps ?ad ?q
        _ _ _ _ "Some [0]" "[Fin (11/10), Fin (3/4)]"] rect sw
    by blast
  then have "- int (len_list_of ?ad) \<le> 0 \<and> (0::int) < int (len_list_of ?ad)"
    by simp
  with rect sw show ?thesis by simp
qed

section \<open>Replay Method: the round rewards\<close>

lemma fsum_map_b2f:
  "fsum (map (\<lambda>v. b2f (P v)) xs) = Fin (real (length (filter P xs)))"
  by (induction xs) (simp_all add: b2f_def)

lemma fmean_map_b2f:
  assumes "xs \<noteq> []"
  shows "fmean (map (\<lambda>v. b2f (P v)) xs) =
         Fin (real (length (filter P xs)) / real (length xs))"
  using assms by (simp add: fmean_def fsum_map_b2f)

lemma filter_feq_one: "filter (\<lambda>v. feq v (Fin 1)) xs = filter (\<lambda>v. v = Fin 1) xs"
  by (simp add: feq_Fin_iff)

lemma no_match_iff:
  "length (filter (\<lambda>v. v = Fin 1) xs) = 0 \<longleftrightarrow> (\<forall>t < length xs. xs ! t \<noteq> Fin 1)"
  by (auto simp: filter_empty_conv in_set_conv_nth)

lemma RM_round_rewards_unfold:
  assumes "take_along action_dist action (default_position action_dist position) = Inr pi_e"
  shows "RM_estimate_round_rewards reward action action_dist position =
     (if 0 < length (filter (\<lambda>v. v = Fin 1) pi_e) then
        (if length pi_e = length reward then
           Inr (map (\<lambda>x. fdiv x (Fin (real (length (filter (\<lambda>v. v = Fin 1) pi_e)) /
                                       real (length pi_e))))
                  (map2 fmul (map (\<lambda>v. b2f (v = Fin 1)) pi_e) reward))
         else Inl ValueError)
      else Inr (replicate (length pi_e) (Fin 0)))"
proof (cases "pi_e = []")
  case True
  then show ?thesis using assms by (simp add: RM_estimate_round_rewards_def)
next
  case False
  then show ?thesis
    using assms fmean_map_b2f [of pi_e "\<lambda>v. feq v (Fin 1)"]
    by (simp add: RM_estimate_round_rewards_def Let_def fsum_map_b2f filter_feq_one vop_def
          feq_Fin_iff)
qed

text \<open>
  Claim C6. Let \<open>pi_e[t]\<close> be the entry of \<open>action_dist\<close> at round \<open>t\<close>, the logged
  action and the position (zeros when the position is None). If no \<open>pi_e[t]\<close> is exactly
  \<open>1\<close>, the Replay Method returns the vector of \<open>T\<close> zeros: it raises nothing and
  divides by nothing (whatever the reward vector). If some round matches, the reward
  of round \<open>t\<close> is the indicator of a match at \<open>t\<close> times \<open>reward[t]\<close>, divided by the
  match rate, the number of matching rounds over \<open>T\<close>.
\<close>

theorem RM_round_rewards_by_match:
  assumes "take_along action_dist action (default_position action_dist position) = Inr pi_e"
  shows "(\<forall>t < length action.
            at3 action_dist t (action ! t) (default_position action_dist position ! t)
              = Inr (pi_e ! t)) \<and>
         ((\<forall>t < length action. pi_e ! t \<noteq> Fin 1) \<longrightarrow>
            RM_estimate_round_rewards reward action action_dist position =
              Inr (replicate (length action) (Fin 0))) \<and>
         ((\<exists>t < length action. pi_e ! t = Fin 1) \<and> length reward = length action \<longrightarrow>
            (\<exists>rs. RM_estimate_round_rewards reward action action_dist position = Inr rs \<and>
               length rs = length action \<and>
               (\<forall>t < length action.
                  rs ! t = fdiv (fmul (b2f (pi_e ! t = Fin 1)) (reward ! t))
                     (Fin (real (length (filter (\<lambda>v. v = Fin 1) pi_e)) /
                           real (length action))))))"
proof -
  from assms have len: "length pi_e = length action"
    and ent: "\<forall>t < length action.
            at3 action_dist t (action ! t) (default_position action_dist position ! t)
              = Inr (pi_e ! t)"
    unfolding take_along_Inr_iff by auto
  let ?k = "length (filter (\<lambda>v. v = Fin 1) pi_e)"
  have zero: "RM_estimate_round_rewards reward action action_dist position =
              Inr (replicate (length action) (Fin 0))"
    if "\<forall>t < length action. pi_e ! t \<noteq> Fin 1"
  proof -
    from that len have "?k = 0" using no_match_iff [of pi_e] by simp
    then show ?thesis using RM_round_rewards_unfold [OF assms, of reward] len by simp
  qed
  have some: "\<exists>rs. RM_estimate_round_rewards reward action action_dist position = Inr rs \<and>
               length rs = length action \<and>
               (\<forall>t < length action.
                  rs ! t = fdiv (fmul (b2f (pi_e ! t = Fin 1)) (reward ! t))
                     (Fin (real ?k / real (length action))))"
    if m: "\<exists>t < length action. pi_e ! t = Fin 1" and lr: "length reward = length action"
  proof -
    from m len have "?k \<noteq> 0" using no_match_iff [of pi_e] by auto
    then have k: "0 < ?k" by simp
    let ?rs = "map (\<lambda>x. fdiv x (Fin (real ?k / real (length pi_e))))
                  (map2 fmul (map (\<lambda>v. b2f (v = Fin 1)) pi_e) reward)"
    have eq: "RM_estimate_round_rewards reward action action_dist position = Inr ?rs"
      using RM_round_rewards_unfold [OF assms, of reward] k len lr by simp
    have l: "length ?rs = length action" using len lr by simp
    have "\<forall>t < length action.
                  ?rs ! t = fdiv (fmul (b2f (pi_e ! t = Fin 1)) (reward ! t))
                     (Fin (real ?k / real (length action)))"
      using len lr by simp
    with eq l show ?thesis by blast
  qed
  from ent zero some show ?thesis by blast
qed

text \<open>Two rounds without a match, and three rounds of which the first and the last
  match.\<close>

theorem RM_round_rewards_by_match_witness:
  "take_along [[[Fin (1/2)], [Fin (1/2)]], [[Fin (1/2)], [Fin (1/2)]]] [0, 1]
     (default_position [[[Fin (1/2)], [Fin (1/2)]], [[Fin (1/2)], [Fin (1/2)]]] None)
     = Inr [Fin (1/2), Fin (1/2)] \<and>
   RM_estimate_round_rewards [Fin 1, Fin 1] [0, 1]
     [[[Fin (1/2)], [Fin (1/2)]], [[Fin (1/2)], [Fin (1/2)]]] None = Inr [Fin 0, Fin 0] \<and>
   take_along [[[Fin 1], [Fin 0]], [[Fin 1], [Fin 0]], [[Fin 1], [Fin 0]]] [0, 1, 0]
     (default_position [[[Fin 1], [Fin 0]], [[Fin 1], [Fin 0]], [[Fin 1], [Fin 0]]] None)
     = Inr [Fin 1, Fin 0, Fin 1] \<and>
   (\<exists>rs. RM_estimate_round_rewards [Fin 1, Fin 1, Fin 1] [0, 1, 0]
           [[[Fin 1], [Fin 0]], [[Fin 1], [Fin 0]], [[Fin 1], [Fin 0]]] None = Inr rs \<and>
         length rs = 3 \<and> rs ! 0 = Fin (3/2) \<and> rs ! 1 = Fin 0)"
proof -
  let ?ad1 = "[[[Fin (1/2)], [Fin (1/2)]], [[Fin (1/2)], [Fin (1/2)]]]"
  let ?a1 = "[0, 1] :: int list"
  have h1: "take_along ?ad1 ?a1 (default_position ?ad1 None) = Inr [Fin (1/2), Fin (1/2)]"
    by code_simp
  have n1: "\<forall>t < length ?a1. [Fin (1/2), Fin (1/2)] ! t \<noteq> Fin 1"
    by (simp add: nth_Cons split: nat.splits)
  have z: "RM_estimate_round_rewards [Fin 1, Fin 1] ?a1 ?ad1 None =
      Inr (replicate (length ?a1) (Fin 0))"
    using RM_round_rewards_by_match [OF h1, of "[Fin 1, Fin 1]"] n1 by blast
  then have z': "RM_estimate_round_rewards [Fin 1, Fin 1] ?a1 ?ad1 None = Inr [Fin 0, Fin 0]"
    by (simp add: numeral_2_eq_2)
  let ?ad2 = "[[[Fin 1], [Fin 0]], [[Fin 1], [Fin 0]], [[Fin 1], [Fin 0]]]"
  let ?a2 = "[0, 1, 0] :: int list"
  let ?r2 = "[Fin 1, Fin 1, Fin 1]"
  have h2: "take_along ?ad2 ?a2 (default_position ?ad2 None) = Inr [Fin 1, Fin 0, Fin 1]"
    by code_simp
  have ex: "\<exists>t < length ?a2. [Fin 1, Fin 0, Fin 1] ! t = Fin 1"
    by (rule exI [of _ 0]) simp
  have lr: "length ?r2 = length ?a2" by simp
  from RM_round_rewards_by_match [OF h2, of ?r2] ex lr
  obtain rs where rs: "RM_estimate_round_rewards ?r2 ?a2 ?ad2 None = Inr rs"
    "length rs = length ?a2"
    "\<forall>t < length ?a2.
        rs ! t = fdiv (fmul (b2f ([Fin 1, Fin 0, Fin 1] ! t = Fin 1)) (?r2 ! t))
           (Fin (real (length (filter (\<lambda>v. v = Fin 1) [Fin 1, Fin 0, Fin 1])) /
                 real (length ?a2)))"
    by blast
  have l0: "(0::nat) < length ?a2" and l1: "(1::nat) < length ?a2" by simp_all
  have r0: "rs ! 0 = Fin (3/2)"
    using rs(3) [rule_format, OF l0] by (simp add: b2f_def)
  have r1: "rs ! 1 = Fin 0"
    using rs(3) [rule_format, OF l1] by (simp add: b2f_def)
  have "\<exists>rs. RM_estimate_round_rewards ?r2 ?a2 ?ad2 None = Inr rs \<and>
         length rs = 3 \<and> rs ! 0 = Fin (3/2) \<and> rs ! 1 = Fin 0"
    using rs(1,2) r0 r1 by auto
  with h1 z' h2 show ?thesis by blast
qed

section \<open>Vectors of finite values\<close>




lemma map2_fsub_Fin: "map2 fsub (map Fin xs) (map Fin ys) = map Fin (map2 (-) xs ys)"
  by (induction xs arbitrary: ys) (auto simp: zip_Cons1 fsub_def split: list.splits)




section \<open>Self-normalized IPW: the ratio of sums\<close>




section \<open>Switch-DR at the two ends of the threshold\<close>


subsection \<open>Index vectors of one length\<close>





subsection \<open>An infinite threshold\<close>






subsection \<open>A correction with weights zero\<close>








subsection \<open>Indexing a batch that validation accepts\<close>



















subsection \<open>A zero threshold\<close>









end
